theory Spec2Isabelle
  imports Complex_Main "HOL-Library.Char_ord" "HOL-Library.List_Lexorder" "HOL-Library.Multiset"
begin

section \<open>The TP53 explorer: a Streamlit script over a pandas table\<close>

text \<open>
  The program is one Python script, \<^verbatim>\<open>app.py\<close>. Streamlit runs it from top to bottom at
  every interaction of the user. The script resolves one of two CSV files, reads it with
  pandas, and renders one of four pages. The model keeps the script's order: every
  \<^verbatim>\<open>st.*\<close> call appends one element to the rendered page, every pandas call that can
  raise returns a sum with the exception on the left, and \<^verbatim>\<open>st.stop()\<close> ends the run.
  The calls that render (\<^verbatim>\<open>st.write\<close>, \<^verbatim>\<open>st.image\<close>, \<^verbatim>\<open>st.dataframe\<close> and the like) are
  taken not to raise; what an exception has left on the page stays in the result.
\<close>

subsection \<open>Values, tables and exceptions\<close>

text \<open>
  The exceptions the script can meet. \<open>KeyError\<close> carries the missing label;
  \<open>OtherError\<close> carries the class name of an exception raised inside
  \<^verbatim>\<open>pd.read_csv\<close> (an empty file, a directory, a malformed file).
\<close>

datatype py_error = KeyError string | IndexError | TypeError | ValueError | OtherError string

text \<open>
  A cell of a table read from CSV: a number (an int64 or a finite float64 value), a
  string, or a missing value. Boolean and date columns and the infinite floats are outside
  the model.
\<close>

datatype cell = Num real | Str string | NaN

text \<open>
  A row assigns a cell to every column label; the labels that count are those of the
  table's \<open>columns\<close> (of the series' \<open>index\<close>). Every read below checks the label first
  and raises \<open>KeyError\<close> as pandas does, so a row is never read outside them. The labels
  of a table read from CSV are pairwise different (\<^verbatim>\<open>pd.read_csv\<close> renames a repeated one).
\<close>

type_synonym row = "string \<Rightarrow> cell"

record dataframe =
  columns :: "string list"
  rows :: "row list"

record series =
  index :: "string list"
  vals :: row

definition isna :: "cell \<Rightarrow> bool" where
  "isna v = (case v of NaN \<Rightarrow> True | _ \<Rightarrow> False)"

definition is_num :: "cell \<Rightarrow> bool" where
  "is_num v = (case v of Num _ \<Rightarrow> True | _ \<Rightarrow> False)"

definition is_str :: "cell \<Rightarrow> bool" where
  "is_str v = (case v of Str _ \<Rightarrow> True | _ \<Rightarrow> False)"

fun num_of :: "cell \<Rightarrow> real" where
  "num_of (Num x) = x"
| "num_of _ = 0"

fun str_of :: "cell \<Rightarrow> string" where
  "str_of (Str s) = s"
| "str_of _ = []"

text \<open>Python's \<^verbatim>\<open>==\<close> on two cells: a missing value equals nothing, itself included.\<close>

definition py_eq :: "cell \<Rightarrow> cell \<Rightarrow> bool" where
  "py_eq a b = (\<not> isna a \<and> \<not> isna b \<and> a = b)"

text \<open>The order pandas sorts a column by: numbers by value, strings by code point.\<close>

fun cell_le :: "cell \<Rightarrow> cell \<Rightarrow> bool" where
  "cell_le (Num a) (Num b) = (a \<le> b)"
| "cell_le (Str a) (Str b) = (a \<le> b)"
| "cell_le _ _ = False"

subsection \<open>The pandas operations the script calls\<close>

text \<open>\<^verbatim>\<open>df[c]\<close> for one label: the column's values, or \<open>KeyError\<close>.\<close>

definition df_getitem :: "dataframe \<Rightarrow> string \<Rightarrow> py_error + cell list" where
  "df_getitem df c =
     (if c \<in> set (columns df) then Inr (map (\<lambda>r. r c) (rows df)) else Inl (KeyError c))"

text \<open>\<^verbatim>\<open>df[cols]\<close> for a list of labels: the table of these columns, in the list's order.\<close>

definition df_getitem_list :: "dataframe \<Rightarrow> string list \<Rightarrow> py_error + dataframe" where
  "df_getitem_list df cols =
     (case [c \<leftarrow> cols. c \<notin> set (columns df)] of
        [] \<Rightarrow> Inr \<lparr>columns = cols, rows = rows df\<rparr>
      | c # _ \<Rightarrow> Inl (KeyError c))"

text \<open>\<^verbatim>\<open>df[mask]\<close> for a boolean series: the rows whose mask is true.\<close>

definition df_getitem_mask :: "dataframe \<Rightarrow> bool list \<Rightarrow> dataframe" where
  "df_getitem_mask df keep = df\<lparr>rows := map fst [p \<leftarrow> zip (rows df) keep. snd p]\<rparr>"

text \<open>\<^verbatim>\<open>series == value\<close>, where the value may be Python's \<^verbatim>\<open>None\<close>.\<close>

definition series_eq :: "cell list \<Rightarrow> cell option \<Rightarrow> bool list" where
  "series_eq vs sel = map (\<lambda>v. case sel of None \<Rightarrow> False | Some s \<Rightarrow> py_eq v s) vs"

text \<open>\<^verbatim>\<open>df.iloc[0]\<close>: the first row as a series, \<open>IndexError\<close> on a table with no row.\<close>

definition iloc0 :: "dataframe \<Rightarrow> py_error + series" where
  "iloc0 df =
     (case rows df of
        [] \<Rightarrow> Inl IndexError
      | r # _ \<Rightarrow> Inr \<lparr>index = columns df, vals = r\<rparr>)"

text \<open>\<^verbatim>\<open>row[c]\<close> and \<^verbatim>\<open>row[cols]\<close> on a series.\<close>

definition series_getitem :: "series \<Rightarrow> string \<Rightarrow> py_error + cell" where
  "series_getitem s c = (if c \<in> set (index s) then Inr (vals s c) else Inl (KeyError c))"

definition series_getitem_list :: "series \<Rightarrow> string list \<Rightarrow> py_error + series" where
  "series_getitem_list s cols =
     (case [c \<leftarrow> cols. c \<notin> set (index s)] of
        [] \<Rightarrow> Inr \<lparr>index = cols, vals = vals s\<rparr>
      | c # _ \<Rightarrow> Inl (KeyError c))"

text \<open>
  \<^verbatim>\<open>df.sort_values(by, ascending=False)\<close>. pandas splits the missing keys off, reverses
  the others, sorts them in ascending order, reverses the result and puts the rows with a
  missing key last. Numbers and strings in one column do not compare (\<open>TypeError\<close>).
  The order of rows with equal keys is the one of a stable sort.
\<close>

definition sort_values_desc :: "string \<Rightarrow> dataframe \<Rightarrow> py_error + dataframe" where
  "sort_values_desc by df =
     (if by \<notin> set (columns df) then Inl (KeyError by)
      else
        let non_nans = [r \<leftarrow> rows df. \<not> isna (r by)];
            nans = [r \<leftarrow> rows df. isna (r by)]
        in
          if list_all (\<lambda>r. is_num (r by)) non_nans
          then Inr (df\<lparr>rows := rev (sort_key (\<lambda>r. num_of (r by)) (rev non_nans)) @ nans\<rparr>)
          else if list_all (\<lambda>r. is_str (r by)) non_nans
          then Inr (df\<lparr>rows := rev (sort_key (\<lambda>r. str_of (r by)) (rev non_nans)) @ nans\<rparr>)
          else Inl TypeError)"

text \<open>
  \<^verbatim>\<open>s.to_frame(name=n).reset_index()\<close>: one row per label of the series, the label in
  column \<^verbatim>\<open>index\<close> and the value in column \<open>n\<close>.
\<close>

definition to_frame_reset_index :: "string \<Rightarrow> series \<Rightarrow> dataframe" where
  "to_frame_reset_index n s =
     \<lparr>columns = [''index'', n],
      rows = map (\<lambda>c. (\<lambda>_. NaN)(''index'' := Str c, n := vals s c)) (index s)\<rparr>"

text \<open>\<^verbatim>\<open>df[c] = values\<close>: sets a column, appended when the label is new.\<close>

definition df_setitem :: "dataframe \<Rightarrow> string \<Rightarrow> cell list \<Rightarrow> dataframe" where
  "df_setitem df c vs =
     \<lparr>columns = (if c \<in> set (columns df) then columns df else columns df @ [c]),
      rows = map (\<lambda>p. (fst p)(c := snd p)) (zip (rows df) vs)\<rparr>"

text \<open>
  Python's \<^verbatim>\<open>str.replace(old, new)\<close>: every occurrence of \<open>old\<close>, from the left and
  without overlap. With an empty \<open>old\<close> Python puts \<open>new\<close> around every character.
\<close>

fun replace_from :: "string \<Rightarrow> string \<Rightarrow> nat \<Rightarrow> string \<Rightarrow> string" where
  "replace_from old new k [] = []"
| "replace_from old new (Suc k) (c # cs) = replace_from old new k cs"
| "replace_from old new 0 (c # cs) =
     (if take (length old) (c # cs) = old
      then new @ replace_from old new (length old - 1) cs
      else c # replace_from old new 0 cs)"

definition str_replace :: "string \<Rightarrow> string \<Rightarrow> string \<Rightarrow> string" where
  "str_replace old new s =
     (if old = [] then new @ concat (map (\<lambda>c. c # new) s) else replace_from old new 0 s)"

text \<open>\<^verbatim>\<open>series.str.replace(old, new)\<close>: a value that is not a string becomes missing.\<close>

definition series_str_replace :: "string \<Rightarrow> string \<Rightarrow> cell list \<Rightarrow> cell list" where
  "series_str_replace old new vs =
     map (\<lambda>v. case v of Str s \<Rightarrow> Str (str_replace old new s) | _ \<Rightarrow> NaN) vs"

definition startswith :: "string \<Rightarrow> string \<Rightarrow> bool" where
  "startswith s p = (take (length p) s = p)"

text \<open>
  The format \<^verbatim>\<open>{v:.2f}\<close> of an f-string. A number is shown with two decimals: Python
  rounds the exact value of the float to the nearest multiple of 0.01, and to the even one
  when two are equally near. A missing value is shown as it is, a string raises
  \<open>ValueError\<close>. The result is the number the text shows.
\<close>

definition round_half_even :: "real \<Rightarrow> int" where
  "round_half_even x =
     (let n = \<lfloor>x\<rfloor>; d = x - of_int n
      in if d < 1 / 2 then n else if 1 / 2 < d then n + 1 else if even n then n else n + 1)"

definition two_decimals :: "real \<Rightarrow> real" where
  "two_decimals x = of_int (round_half_even (x * 100)) / 100"

definition shown_2f :: "cell \<Rightarrow> cell" where
  "shown_2f v = (case v of Num x \<Rightarrow> Num (two_decimals x) | _ \<Rightarrow> v)"

definition format_2f :: "cell \<Rightarrow> py_error + cell" where
  "format_2f v = (case v of Str _ \<Rightarrow> Inl ValueError | _ \<Rightarrow> Inr (shown_2f v))"

text \<open>Sequencing of calls that can raise: the first exception ends the expression.\<close>

definition and_then :: "py_error + 'a \<Rightarrow> ('a \<Rightarrow> py_error + 'b) \<Rightarrow> py_error + 'b" where
  "and_then r f = (case r of Inl e \<Rightarrow> Inl e | Inr a \<Rightarrow> f a)"

subsection \<open>The file system\<close>

text \<open>
  A state of the file system says which paths exist. pandas is a library outside the
  repository, so a path that exists is given by what \<^verbatim>\<open>pd.read_csv\<close> makes of it: the
  table it parses, or the exception it raises.
\<close>

type_synonym path = string

type_synonym filesystem = "path \<rightharpoonup> (py_error + dataframe)"

definition os_path_exists :: "filesystem \<Rightarrow> path \<Rightarrow> bool" where
  "os_path_exists fs p = (fs p \<noteq> None)"

definition pd_read_csv :: "filesystem \<Rightarrow> path \<Rightarrow> py_error + dataframe" where
  "pd_read_csv fs p =
     (case fs p of None \<Rightarrow> Inl (OtherError ''FileNotFoundError'') | Some r \<Rightarrow> r)"

subsection \<open>Loading the features\<close>

definition clustered_csv :: path where
  "clustered_csv = ''data/tp53_features_with_similarity_clustered.csv''"

definition plain_csv :: path where
  "plain_csv = ''data/tp53_features_with_similarity.csv''"

definition candidates :: "path list" where
  "candidates = [clustered_csv, plain_csv]"

text \<open>What \<open>load_features\<close> returns: the pair \<^verbatim>\<open>(df, fname)\<close> or \<^verbatim>\<open>(None, None)\<close>.\<close>

type_synonym loaded = "dataframe option \<times> path option"

text \<open>The \<^verbatim>\<open>for fname in [...]\<close> loop of \<open>load_features\<close>, over the names still to try.\<close>

fun load_from :: "filesystem \<Rightarrow> path list \<Rightarrow> py_error + loaded" where
  "load_from fs [] = Inr (None, None)"
| "load_from fs (fname # rest) =
     (if os_path_exists fs fname
      then (case pd_read_csv fs fname of
              Inl e \<Rightarrow> Inl e
            | Inr df \<Rightarrow> Inr (Some df, Some fname))
      else load_from fs rest)"

definition load_features :: "filesystem \<Rightarrow> py_error + loaded" where
  "load_features fs = load_from fs candidates"

text \<open>
  \<^verbatim>\<open>@st.cache_data\<close> on a function without arguments: one slot that lives as long as the
  process. A call finds the slot filled and returns its value without running the
  function, or runs the function and stores what it returns. An exception stores nothing.
\<close>

definition st_cache_data ::
  "(filesystem \<Rightarrow> py_error + 'a) \<Rightarrow> 'a option \<Rightarrow> filesystem \<Rightarrow> (py_error + 'a) \<times> 'a option" where
  "st_cache_data f cache fs =
     (case cache of
        Some v \<Rightarrow> (Inr v, cache)
      | None \<Rightarrow> (case f fs of Inl e \<Rightarrow> (Inl e, None) | Inr v \<Rightarrow> (Inr v, Some v)))"

subsection \<open>Rendering\<close>

text \<open>
  One element per \<^verbatim>\<open>st.*\<close> call of the script. Fixed texts are given by their first
  words; an element that shows a value of the table carries the value.
\<close>

datatype element =
    Title
  | Intro
  | Error_features_missing
  | Sidebar_success "path option"
  | Header string
  | Subheader string
  | Markdown string
  | Write string
  | Image path
  | Warning path
  | Selectbox "cell list" "cell option"
  | Details_for "cell option"
  | Write_length cell
  | Write_identity cell
  | Write_cluster cell
  | Dataframe dataframe

text \<open>How a run of (a part of) the script ends.\<close>

datatype 'a outcome = Returned 'a | Stopped | Raised py_error

type_synonym 'a io = "element list \<times> 'a outcome"

definition emit :: "element \<Rightarrow> unit io" where
  "emit e = ([e], Returned ())"

definition lift :: "py_error + 'a \<Rightarrow> 'a io" where
  "lift r = (case r of Inl e \<Rightarrow> ([], Raised e) | Inr a \<Rightarrow> ([], Returned a))"

definition st_stop :: "unit io" where
  "st_stop = ([], Stopped)"

definition io_bind :: "'a io \<Rightarrow> ('a \<Rightarrow> 'b io) \<Rightarrow> 'b io" where
  "io_bind m f =
     (case m of
        (out, Returned a) \<Rightarrow> (case f a of (out', r) \<Rightarrow> (out @ out', r))
      | (out, Stopped) \<Rightarrow> (out, Stopped)
      | (out, Raised e) \<Rightarrow> (out, Raised e))"

text \<open>A block of statements, run in order until one stops or raises.\<close>

fun block :: "unit io list \<Rightarrow> unit io" where
  "block [] = ([], Returned ())"
| "block (m # ms) = io_bind m (\<lambda>_. block ms)"

text \<open>
  \<^verbatim>\<open>st.selectbox(label, options)\<close> returns the option the user picked, the first option
  when the pick is not one of them, and \<^verbatim>\<open>None\<close> when there is no option.
\<close>

definition selectbox_value :: "cell list \<Rightarrow> nat \<Rightarrow> cell option" where
  "selectbox_value options i =
     (case options of
        [] \<Rightarrow> None
      | v # _ \<Rightarrow> Some (if i < length options then options ! i else v))"

subsection \<open>The pages\<close>

datatype page = Overview | TP53_Database | Explore_a_Sequence | About

definition tree_path :: path where
  "tree_path = ''images/TP53_tree.png''"

definition logo_path :: path where
  "logo_path = ''images/TP53_MSA_logo.png''"

definition barplot_path :: path where
  "barplot_path = ''images/identity_barplot.png''"

text \<open>The pattern the Overview page repeats for each image (lines 63-66, 71-74, 79-82).\<close>

definition image_or_warning :: "filesystem \<Rightarrow> path \<Rightarrow> unit io" where
  "image_or_warning fs p = (if os_path_exists fs p then emit (Image p) else emit (Warning p))"

definition page_overview :: "filesystem \<Rightarrow> unit io" where
  "page_overview fs =
     block
      [emit (Header ''Overview of Analysis''),
       emit (Subheader ''Phylogenetic Tree''),
       image_or_warning fs tree_path,
       emit (Subheader ''MSA Conservation Logo''),
       image_or_warning fs logo_path,
       emit (Markdown ''---''),
       emit (Subheader ''Identity to Human TP53''),
       image_or_warning fs barplot_path,
       emit (Markdown ''On this page you can see'')]"

definition main_cols :: "string list" where
  "main_cols = [''id'', ''length'', ''identity_to_human'']"

text \<open>Lines 100-104: the columns of the Database page.\<close>

definition cols_to_show :: "dataframe \<Rightarrow> bool \<Rightarrow> string list" where
  "cols_to_show features_df has_cluster =
     (let cols = [c \<leftarrow> main_cols. c \<in> set (columns features_df)]
      in if has_cluster then cols @ [''cluster''] else cols)"

definition page_database :: "dataframe \<Rightarrow> bool \<Rightarrow> unit io" where
  "page_database features_df has_cluster =
     block
      [emit (Header ''TP53 Feature Table''),
       emit (Write ''This table shows all TP53 and TP53-like sequences''),
       io_bind
         (lift (and_then (df_getitem_list features_df (cols_to_show features_df has_cluster))
                  (sort_values_desc ''identity_to_human'')))
         (\<lambda>shown. emit (Dataframe shown)),
       emit (Markdown ''Tip for Viva / Thesis'')]"

text \<open>Line 127: the row of the selected identifier.\<close>

definition selected_row :: "dataframe \<Rightarrow> cell option \<Rightarrow> py_error + series" where
  "selected_row features_df selected_id =
     and_then (df_getitem features_df ''id'')
       (\<lambda>ids. iloc0 (df_getitem_mask features_df (series_eq ids selected_id)))"

text \<open>Lines 133-139: the left column of the Explore page.\<close>

definition basic_properties :: "series \<Rightarrow> bool \<Rightarrow> unit io" where
  "basic_properties row has_cluster =
     block
      [emit (Write ''Basic properties:''),
       io_bind (lift (series_getitem row ''length'')) (\<lambda>v. emit (Write_length v)),
       (if ''identity_to_human'' \<in> set (index row)
        then io_bind (lift (and_then (series_getitem row ''identity_to_human'') format_2f))
               (\<lambda>v. emit (Write_identity v))
        else block []),
       (if has_cluster
        then io_bind (lift (series_getitem row ''cluster'')) (\<lambda>v. emit (Write_cluster v))
        else block [])]"

text \<open>Lines 143-146: the table of amino acid fractions.\<close>

definition aa_cols :: "dataframe \<Rightarrow> string list" where
  "aa_cols features_df = [c \<leftarrow> columns features_df. startswith c ''frac_'']"

definition comp_df :: "dataframe \<Rightarrow> series \<Rightarrow> py_error + dataframe" where
  "comp_df features_df row =
     and_then (series_getitem_list row (aa_cols features_df))
       (\<lambda>fracs.
          let frame = to_frame_reset_index ''Fraction'' fracs
          in and_then (df_getitem frame ''index'')
               (\<lambda>labels.
                  df_getitem_list
                    (df_setitem frame ''Amino Acid'' (series_str_replace ''frac_'' [] labels))
                    [''Amino Acid'', ''Fraction'']))"

definition composition :: "dataframe \<Rightarrow> series \<Rightarrow> unit io" where
  "composition features_df row =
     block
      [emit (Write ''Amino acid composition (fraction):''),
       io_bind (lift (comp_df features_df row)) (\<lambda>t. emit (Dataframe t))]"

definition page_explore :: "dataframe \<Rightarrow> bool \<Rightarrow> nat \<Rightarrow> unit io" where
  "page_explore features_df has_cluster pick =
     block
      [emit (Header ''Explore a Single TP53 / RTG Sequence''),
       emit (Write ''Choose a sequence ID from the dropdown below''),
       io_bind (lift (df_getitem features_df ''id''))
         (\<lambda>seq_ids.
            let selected_id = selectbox_value seq_ids pick
            in block
                [emit (Selectbox seq_ids selected_id),
                 io_bind (lift (selected_row features_df selected_id))
                   (\<lambda>row.
                      block
                       [emit (Details_for selected_id),
                        basic_properties row has_cluster,
                        composition features_df row,
                        emit (Markdown ''You can explain in your thesis'')])])]"

definition page_about :: "unit io" where
  "page_about =
     block
      [emit (Header ''About This App''),
       emit (Markdown ''Project: AI-Driven Comparative Analysis of TP53 Paralogs''),
       emit (Markdown ''---''),
       emit (Markdown ''Built with Python and Streamlit'')]"

subsection \<open>The script\<close>

text \<open>What a run depends on: the files, the page of the sidebar, the pick of the selectbox.\<close>

record env =
  files :: filesystem
  nav :: page
  pick_of :: nat

text \<open>Lines 35-177, given what \<open>load_features\<close> returned.\<close>

definition render :: "env \<Rightarrow> loaded \<Rightarrow> unit io" where
  "render e ld =
     (case ld of (features_df, features_file) \<Rightarrow>
        (case features_df of
           None \<Rightarrow> block [emit Error_features_missing, st_stop]
         | Some df \<Rightarrow>
             let has_cluster = (''cluster'' \<in> set (columns df))
             in block
                 [emit (Sidebar_success features_file),
                  (case nav e of
                     Overview \<Rightarrow> page_overview (files e)
                   | TP53_Database \<Rightarrow> page_database df has_cluster
                   | Explore_a_Sequence \<Rightarrow> page_explore df has_cluster (pick_of e)
                   | About \<Rightarrow> page_about)]))"

text \<open>
  One run of the script in a process whose cache slot is \<open>cache\<close>: what it renders and how
  it ends, and the cache slot after it.
\<close>

definition app :: "loaded option \<Rightarrow> env \<Rightarrow> unit io \<times> loaded option" where
  "app cache e =
     (case st_cache_data load_features cache (files e) of
        (r, cache') \<Rightarrow> (block [emit Title, emit Intro, io_bind (lift r) (render e)], cache'))"


subsection \<open>The objects of a run\<close>

text \<open>
  The pages above are functions of the value of the table, so they cannot tell whether
  the script changes the object that \<^verbatim>\<open>features_df\<close> names. The script is therefore
  given once more over a store of objects. A table lives at an address and a name of the
  script holds an address. Each pandas call reads an object, makes a new object or
  changes an object in place, as pandas does. The store also holds the slot of
  \<^verbatim>\<open>st.cache_data\<close> and counts the calls of \<^verbatim>\<open>pd.read_csv\<close> that returned a table.
\<close>

type_synonym addr = nat

record store =
  frames :: "addr \<Rightarrow> dataframe"
  next_addr :: addr
  loads :: nat
  cache :: "loaded option"

text \<open>A part of the script: from a store to what it renders, how it ends, and the store left.\<close>

type_synonym 'a prog = "store \<Rightarrow> 'a io \<times> store"




text \<open>A new object takes the first free address.\<close>

definition new_frame :: "dataframe \<Rightarrow> addr prog" where
  "new_frame df s =
     (([], Returned (next_addr s)),
      s\<lparr>frames := (frames s)(next_addr s := df), next_addr := Suc (next_addr s)\<rparr>)"























subsection \<open>Predicates of the properties\<close>

text \<open>
  The values of column \<open>c\<close> compare with each other: apart from missing values they are
  all numbers or all strings.
\<close>

definition comparable_column :: "string \<Rightarrow> row list \<Rightarrow> bool" where
  "comparable_column c rs =
     (list_all (\<lambda>r. is_num (r c) \<or> isna (r c)) rs \<or> list_all (\<lambda>r. is_str (r c) \<or> isna (r c)) rs)"

text \<open>
  The rows are in descending order of column \<open>c\<close>: the rows up to the first missing value
  go from the greatest value to the least, and every row after them has a missing value.
\<close>

definition descending_by :: "string \<Rightarrow> row list \<Rightarrow> bool" where
  "descending_by c rs =
     (sorted_wrt (\<lambda>a b. cell_le (b c) (a c)) (takeWhile (\<lambda>r. \<not> isna (r c)) rs)
      \<and> list_all (\<lambda>r. isna (r c)) (dropWhile (\<lambda>r. \<not> isna (r c)) rs))"

text \<open>Python's \<^verbatim>\<open>old in s\<close>: the string \<open>old\<close> occurs somewhere in \<open>s\<close>.\<close>

fun occurs :: "string \<Rightarrow> string \<Rightarrow> bool" where
  "occurs old [] = (old = [])"
| "occurs old (c # cs) = (take (length old) (c # cs) = old \<or> occurs old cs)"

text \<open>
  A part of the script keeps the objects below \<open>n\<close>: run in a store whose free addresses
  start at \<open>n\<close> or later, it leaves every object below \<open>n\<close>, the counter and the slot
  as they were, and the free addresses still start at \<open>n\<close> or later.
\<close>

definition keeps :: "addr \<Rightarrow> 'a prog \<Rightarrow> bool" where
  "keeps n m =
     (\<forall>s :: store. n \<le> next_addr s \<longrightarrow>
        n \<le> next_addr (snd (m s))
        \<and> (\<forall>a < n. frames (snd (m s)) a = frames s a)
        \<and> loads (snd (m s)) = loads s
        \<and> cache (snd (m s)) = cache s)"


text \<open>The three images of the Overview page.\<close>

definition image_paths :: "path list" where
  "image_paths = [tree_path, logo_path, barplot_path]"

subsection \<open>Example inputs\<close>

text \<open>
  A table of two sequences, the same without the identity column, the table of a file
  that holds only the header line, a table whose identity has four decimals (85.4375 is a
  value of a float), and a table with a column whose name holds the prefix \<^verbatim>\<open>frac_\<close>
  twice.
\<close>

definition elephant_row :: row where
  "elephant_row =
     (\<lambda>_. NaN)(''id'' := Str ''elephant_RTG1'', ''length'' := Num 390,
        ''identity_to_human'' := Num 85.5, ''frac_A'' := Num 0.25)"

definition human_row :: row where
  "human_row =
     (\<lambda>_. NaN)(''id'' := Str ''human_TP53'', ''length'' := Num 393,
        ''identity_to_human'' := Num 100, ''frac_A'' := Num 0.5)"

definition example_df :: dataframe where
  "example_df =
     \<lparr>columns = [''id'', ''length'', ''identity_to_human'', ''frac_A''],
      rows = [elephant_row, human_row]\<rparr>"

definition no_identity_df :: dataframe where
  "no_identity_df = \<lparr>columns = [''id'', ''length''], rows = [human_row]\<rparr>"

definition header_only_df :: dataframe where
  "header_only_df = \<lparr>columns = [''id'', ''length'', ''identity_to_human''], rows = []\<rparr>"

definition rounding_row :: row where
  "rounding_row =
     (\<lambda>_. NaN)(''id'' := Str ''elephant_RTG2'', ''length'' := Num 390,
        ''identity_to_human'' := Num 85.4375)"

definition rounding_df :: dataframe where
  "rounding_df =
     \<lparr>columns = [''id'', ''length'', ''identity_to_human''], rows = [rounding_row]\<rparr>"

definition twice_row :: row where
  "twice_row = (\<lambda>_. NaN)(''id'' := Str ''human_TP53'', ''frac_frac_A'' := Num 0.5)"

definition twice_df :: dataframe where
  "twice_df = \<lparr>columns = [''id'', ''frac_frac_A''], rows = [twice_row]\<rparr>"

text \<open>
  States of the file system. A file without any content makes \<^verbatim>\<open>pd.read_csv\<close> raise
  \<^verbatim>\<open>EmptyDataError\<close>; an image is not a CSV file.
\<close>

definition both_files :: filesystem where
  "both_files = [clustered_csv \<mapsto> Inr example_df, plain_csv \<mapsto> Inr header_only_df]"

definition plain_only :: filesystem where
  "plain_only = [plain_csv \<mapsto> Inr example_df, tree_path \<mapsto> Inl (OtherError ''ParserError'')]"

definition no_files :: filesystem where
  "no_files = Map.empty"

definition tree_only :: filesystem where
  "tree_only = [tree_path \<mapsto> Inl (OtherError ''ParserError'')]"

definition header_only_files :: filesystem where
  "header_only_files = [clustered_csv \<mapsto> Inr header_only_df]"

definition empty_file :: filesystem where
  "empty_file = [plain_csv \<mapsto> Inl (OtherError ''EmptyDataError'')]"

definition empty_first :: filesystem where
  "empty_first =
     [clustered_csv \<mapsto> Inl (OtherError ''EmptyDataError''), plain_csv \<mapsto> Inr example_df]"



section \<open>Properties\<close>

subsection \<open>Rendering and sequencing\<close>

lemma io_bind_emit: "io_bind (emit x) f = (x # fst (f ()), snd (f ()))"
  by (simp add: io_bind_def emit_def split: prod.splits)


lemma io_bind_lift_Inl: "io_bind (lift (Inl err)) f = ([], Raised err)"
  by (simp add: io_bind_def lift_def)

lemma candidates_differ: "clustered_csv \<noteq> plain_csv"
  by (simp add: clustered_csv_def plain_csv_def)

subsection \<open>Resolving and loading the file\<close>

text \<open>The loop returns what pandas reads from the first name that exists.\<close>

lemma load_from_find:
  "load_from fs names =
     (case find (os_path_exists fs) names of
        None \<Rightarrow> Inr (None, None)
      | Some f \<Rightarrow>
          (case pd_read_csv fs f of Inl err \<Rightarrow> Inl err | Inr df \<Rightarrow> Inr (Some df, Some f)))"
  by (induction names) simp_all

text \<open>
  Claim C1, as amended. File resolution tries the clustered file name first and falls back
  to the plain one when the first does not exist. In every state of the file system
  \<open>load_features\<close> calls \<^verbatim>\<open>pd.read_csv\<close> on the first candidate that exists and returns
  the parsed table with that name, or raises what \<^verbatim>\<open>pd.read_csv\<close> raises on that file;
  it does not go on to the second candidate then. When neither candidate exists, the first
  run of the process renders the error message and stops; it does not raise.
\<close>

theorem load_features_resolution:
  "(os_path_exists fs clustered_csv \<longrightarrow>
      load_features fs =
        (case pd_read_csv fs clustered_csv of
           Inl err \<Rightarrow> Inl err
         | Inr df \<Rightarrow> Inr (Some df, Some clustered_csv)))
   \<and> (\<not> os_path_exists fs clustered_csv \<and> os_path_exists fs plain_csv \<longrightarrow>
      load_features fs =
        (case pd_read_csv fs plain_csv of
           Inl err \<Rightarrow> Inl err
         | Inr df \<Rightarrow> Inr (Some df, Some plain_csv)))
   \<and> (\<not> os_path_exists fs clustered_csv \<and> \<not> os_path_exists fs plain_csv \<longrightarrow>
      load_features fs = Inr (None, None)
      \<and> fst (app None \<lparr>files = fs, nav = p, pick_of = i\<rparr>) =
          ([Title, Intro, Error_features_missing], Stopped))"
  by (simp add: load_features_def load_from_find candidates_def app_def st_cache_data_def
      io_bind_def emit_def lift_def st_stop_def render_def)

theorem load_features_resolution_witness:
  "os_path_exists both_files clustered_csv
   \<and> load_features both_files = Inr (Some example_df, Some clustered_csv)
   \<and> \<not> os_path_exists plain_only clustered_csv
   \<and> os_path_exists plain_only plain_csv
   \<and> load_features plain_only = Inr (Some example_df, Some plain_csv)
   \<and> \<not> os_path_exists no_files clustered_csv
   \<and> \<not> os_path_exists no_files plain_csv
   \<and> load_features no_files = Inr (None, None)
   \<and> fst (app None \<lparr>files = no_files, nav = Overview, pick_of = 0\<rparr>) =
        ([Title, Intro, Error_features_missing], Stopped)"
  using load_features_resolution [of both_files]
    load_features_resolution [of plain_only]
    load_features_resolution [of no_files Overview 0]
  by (simp add: os_path_exists_def pd_read_csv_def candidates_differ both_files_def
      plain_only_def no_files_def clustered_csv_def plain_csv_def tree_path_def)

text \<open>
  The claim as stated has \<open>load_features\<close> return a parsed table in every state of the
  file system. Where the first candidate exists and cannot be parsed, \<open>load_features\<close>
  raises, the second candidate is not tried, and the run ends with the exception.
\<close>

theorem load_features_unparsed_counterexample:
  "os_path_exists empty_first clustered_csv
   \<and> load_features empty_first = Inl (OtherError ''EmptyDataError'')
   \<and> fst (app None \<lparr>files = empty_first, nav = Overview, pick_of = 0\<rparr>) =
       ([Title, Intro], Raised (OtherError ''EmptyDataError''))"
  using candidates_differ
  by (simp add: os_path_exists_def load_features_def candidates_def pd_read_csv_def
      empty_first_def app_def st_cache_data_def io_bind_def emit_def lift_def)

text \<open>
  Claim C2. In every state of the file system in which neither candidate exists,
  \<open>load_features\<close> returns the pair \<^verbatim>\<open>(None, None)\<close> and raises nothing; the script then
  renders the error message and stops, and no page is rendered.
\<close>

theorem load_features_absent:
  assumes "\<not> os_path_exists fs clustered_csv" and "\<not> os_path_exists fs plain_csv"
  shows "load_features fs = Inr (None, None)
    \<and> app None \<lparr>files = fs, nav = p, pick_of = i\<rparr> =
        (([Title, Intro, Error_features_missing], Stopped), Some (None, None))"
  using assms
  by (simp add: load_features_def candidates_def app_def st_cache_data_def
      io_bind_def emit_def lift_def st_stop_def render_def)

theorem load_features_absent_witness:
  "\<not> os_path_exists no_files clustered_csv
   \<and> \<not> os_path_exists no_files plain_csv
   \<and> load_features no_files = Inr (None, None)
   \<and> app None \<lparr>files = no_files, nav = Explore_a_Sequence, pick_of = 3\<rparr> =
        (([Title, Intro, Error_features_missing], Stopped), Some (None, None))"
proof -
  have a: "\<not> os_path_exists no_files clustered_csv"
    by (simp add: os_path_exists_def no_files_def)
  have b: "\<not> os_path_exists no_files plain_csv"
    by (simp add: os_path_exists_def no_files_def)
  show ?thesis
    using a b load_features_absent [OF a b, of Explore_a_Sequence 3] by simp
qed

subsection \<open>The Database page\<close>

lemma sorted_desc_num:
  assumes "\<forall>r \<in> set xs. is_num (r c)"
  shows "sorted_wrt (\<lambda>a b. cell_le (b c) (a c)) (rev (sort_key (\<lambda>r. num_of (r c)) xs))"
proof -
  have "sorted_wrt (\<lambda>a b. num_of (a c) \<le> num_of (b c)) (sort_key (\<lambda>r. num_of (r c)) xs)"
    using sorted_sort_key [of "\<lambda>r. num_of (r c)" xs] by (simp add: sorted_map)
  then have "sorted_wrt (\<lambda>a b. cell_le (a c) (b c)) (sort_key (\<lambda>r. num_of (r c)) xs)"
  proof (rule sorted_wrt_mono_rel [rotated])
    fix a b
    assume "a \<in> set (sort_key (\<lambda>r. num_of (r c)) xs)" "b \<in> set (sort_key (\<lambda>r. num_of (r c)) xs)"
      and le: "num_of (a c) \<le> num_of (b c)"
    then have "is_num (a c)" "is_num (b c)" using assms by auto
    then show "cell_le (a c) (b c)"
      using le by (auto simp: is_num_def split: cell.splits)
  qed
  then show ?thesis by (simp add: sorted_wrt_rev)
qed

lemma sorted_desc_str:
  assumes "\<forall>r \<in> set xs. is_str (r c)"
  shows "sorted_wrt (\<lambda>a b. cell_le (b c) (a c)) (rev (sort_key (\<lambda>r. str_of (r c)) xs))"
proof -
  have "sorted_wrt (\<lambda>a b. str_of (a c) \<le> str_of (b c)) (sort_key (\<lambda>r. str_of (r c)) xs)"
    using sorted_sort_key [of "\<lambda>r. str_of (r c)" xs] by (simp add: sorted_map)
  then have "sorted_wrt (\<lambda>a b. cell_le (a c) (b c)) (sort_key (\<lambda>r. str_of (r c)) xs)"
  proof (rule sorted_wrt_mono_rel [rotated])
    fix a b
    assume "a \<in> set (sort_key (\<lambda>r. str_of (r c)) xs)" "b \<in> set (sort_key (\<lambda>r. str_of (r c)) xs)"
      and le: "str_of (a c) \<le> str_of (b c)"
    then have "is_str (a c)" "is_str (b c)" using assms by auto
    then show "cell_le (a c) (b c)"
      using le by (auto simp: is_str_def split: cell.splits)
  qed
  then show ?thesis by (simp add: sorted_wrt_rev)
qed

lemma descending_by_append:
  assumes "\<forall>r \<in> set xs. \<not> isna (r c)" and "\<forall>r \<in> set ys. isna (r c)"
    and "sorted_wrt (\<lambda>a b. cell_le (b c) (a c)) xs"
  shows "descending_by c (xs @ ys)"
proof -
  have "takeWhile (\<lambda>r. \<not> isna (r c)) ys = []" "dropWhile (\<lambda>r. \<not> isna (r c)) ys = ys"
    using assms(2) by (cases ys; simp)+
  then show ?thesis
    using assms by (simp add: descending_by_def list_all_iff)
qed

lemma mset_split: "mset [r \<leftarrow> xs. \<not> P r] + mset [r \<leftarrow> xs. P r] = mset xs"
  by (induction xs) simp_all

lemma sort_values_desc_ok:
  assumes "by \<in> set (columns df)" and "comparable_column by (rows df)"
  shows "\<exists>t. sort_values_desc by df = Inr t \<and> columns t = columns df
           \<and> mset (rows t) = mset (rows df) \<and> descending_by by (rows t)"
proof -
  let ?nn = "[r \<leftarrow> rows df. \<not> isna (r by)]"
  let ?na = "[r \<leftarrow> rows df. isna (r by)]"
  have part: "mset ?nn + mset ?na = mset (rows df)"
    by (rule mset_split)
  show ?thesis
  proof (cases "list_all (\<lambda>r. is_num (r by)) ?nn")
    case True
    then have "\<forall>r \<in> set (rev ?nn). is_num (r by)" by (simp add: list_all_iff)
    from sorted_desc_num [OF this]
    have "descending_by by (rev (sort_key (\<lambda>r. num_of (r by)) (rev ?nn)) @ ?na)"
      by (intro descending_by_append) auto
    with True assms(1) part show ?thesis
      by (simp add: sort_values_desc_def Let_def)
  next
    case False
    with assms(2) have str: "list_all (\<lambda>r. is_str (r by)) ?nn"
      by (auto simp: comparable_column_def list_all_iff)
    then have "\<forall>r \<in> set (rev ?nn). is_str (r by)" by (simp add: list_all_iff)
    from sorted_desc_str [OF this]
    have "descending_by by (rev (sort_key (\<lambda>r. str_of (r by)) (rev ?nn)) @ ?na)"
      by (intro descending_by_append) auto
    with False str assms(1) part show ?thesis
      by (simp add: sort_values_desc_def Let_def)
  qed
qed


lemma sort_values_desc_mixed:
  assumes "by \<in> set (columns df)" and "\<not> comparable_column by (rows df)"
  shows "sort_values_desc by df = Inl TypeError"
proof -
  have "\<not> list_all (\<lambda>r. is_num (r by)) [r \<leftarrow> rows df. \<not> isna (r by)]"
    using assms(2) by (auto simp: comparable_column_def list_all_iff)
  moreover have "\<not> list_all (\<lambda>r. is_str (r by)) [r \<leftarrow> rows df. \<not> isna (r by)]"
    using assms(2) by (auto simp: comparable_column_def list_all_iff)
  ultimately show ?thesis
    using assms(1) by (simp add: sort_values_desc_def Let_def)
qed

lemma cols_to_show_present:
  "df_getitem_list df (cols_to_show df (''cluster'' \<in> set (columns df))) =
     Inr \<lparr>columns = cols_to_show df (''cluster'' \<in> set (columns df)), rows = rows df\<rparr>"
  by (simp add: df_getitem_list_def cols_to_show_def main_cols_def Let_def)

lemma cols_to_show_identity:
  "''identity_to_human'' \<in> set (cols_to_show df (''cluster'' \<in> set (columns df)))
     \<longleftrightarrow> ''identity_to_human'' \<in> set (columns df)"
  by (simp add: cols_to_show_def main_cols_def Let_def)

text \<open>
  Claim C9. On the TP53 Database page the displayed table has exactly the columns
  \<^verbatim>\<open>id\<close>, \<^verbatim>\<open>length\<close>, \<^verbatim>\<open>identity_to_human\<close> that the loaded table has, followed by
  \<^verbatim>\<open>cluster\<close> when the loaded table has it. Its rows are the rows of the loaded table in
  descending order of \<^verbatim>\<open>identity_to_human\<close>, rows with a missing value last. Without the
  column \<^verbatim>\<open>identity_to_human\<close> the page raises \<open>KeyError\<close> before it shows a table.
\<close>

theorem database_page_table:
  "(''identity_to_human'' \<notin> set (columns df) \<longrightarrow>
      page_database df (''cluster'' \<in> set (columns df)) =
        ([Header ''TP53 Feature Table'',
          Write ''This table shows all TP53 and TP53-like sequences''],
         Raised (KeyError ''identity_to_human'')))
   \<and> (''identity_to_human'' \<in> set (columns df)
        \<and> comparable_column ''identity_to_human'' (rows df) \<longrightarrow>
      (\<exists>shown.
         page_database df (''cluster'' \<in> set (columns df)) =
           ([Header ''TP53 Feature Table'',
             Write ''This table shows all TP53 and TP53-like sequences'',
             Dataframe shown,
             Markdown ''Tip for Viva / Thesis''],
            Returned ())
         \<and> columns shown =
             [c \<leftarrow> [''id'', ''length'', ''identity_to_human'']. c \<in> set (columns df)]
             @ [c \<leftarrow> [''cluster'']. c \<in> set (columns df)]
         \<and> mset (rows shown) = mset (rows df)
         \<and> descending_by ''identity_to_human'' (rows shown)))"
proof (intro conjI impI)
  let ?cols = "cols_to_show df (''cluster'' \<in> set (columns df))"
  let ?sub = "\<lparr>columns = ?cols, rows = rows df\<rparr>"
  {
    assume "''identity_to_human'' \<notin> set (columns df)"
    then have "sort_values_desc ''identity_to_human'' ?sub = Inl (KeyError ''identity_to_human'')"
      by (simp add: sort_values_desc_def cols_to_show_identity)
    then show "page_database df (''cluster'' \<in> set (columns df)) =
        ([Header ''TP53 Feature Table'',
          Write ''This table shows all TP53 and TP53-like sequences''],
         Raised (KeyError ''identity_to_human''))"
      by (simp add: page_database_def cols_to_show_present and_then_def io_bind_def
          lift_def emit_def)
  }
  {
    assume h: "''identity_to_human'' \<in> set (columns df)
        \<and> comparable_column ''identity_to_human'' (rows df)"
    then have "''identity_to_human'' \<in> set (columns ?sub)"
      "comparable_column ''identity_to_human'' (rows ?sub)"
      by (simp_all add: cols_to_show_identity)
    from sort_values_desc_ok [OF this]
    obtain t where t: "sort_values_desc ''identity_to_human'' ?sub = Inr t"
      "columns t = ?cols" "mset (rows t) = mset (rows df)"
      "descending_by ''identity_to_human'' (rows t)"
      by auto
    have page: "page_database df (''cluster'' \<in> set (columns df)) =
           ([Header ''TP53 Feature Table'',
             Write ''This table shows all TP53 and TP53-like sequences'',
             Dataframe t,
             Markdown ''Tip for Viva / Thesis''],
            Returned ())"
      using t(1)
      by (simp add: page_database_def cols_to_show_present and_then_def io_bind_def
          lift_def emit_def)
    have cols: "?cols =
        [c \<leftarrow> [''id'', ''length'', ''identity_to_human'']. c \<in> set (columns df)]
        @ [c \<leftarrow> [''cluster'']. c \<in> set (columns df)]"
      by (simp add: cols_to_show_def main_cols_def Let_def)
    show "\<exists>shown.
         page_database df (''cluster'' \<in> set (columns df)) =
           ([Header ''TP53 Feature Table'',
             Write ''This table shows all TP53 and TP53-like sequences'',
             Dataframe shown,
             Markdown ''Tip for Viva / Thesis''],
            Returned ())
         \<and> columns shown =
             [c \<leftarrow> [''id'', ''length'', ''identity_to_human'']. c \<in> set (columns df)]
             @ [c \<leftarrow> [''cluster'']. c \<in> set (columns df)]
         \<and> mset (rows shown) = mset (rows df)
         \<and> descending_by ''identity_to_human'' (rows shown)"
      using page t(2,3,4) cols by (intro exI [of _ t]) simp
  }
qed

theorem database_page_table_witness:
  "''identity_to_human'' \<notin> set (columns no_identity_df)
   \<and> page_database no_identity_df (''cluster'' \<in> set (columns no_identity_df)) =
        ([Header ''TP53 Feature Table'',
          Write ''This table shows all TP53 and TP53-like sequences''],
         Raised (KeyError ''identity_to_human''))
   \<and> ''identity_to_human'' \<in> set (columns example_df)
   \<and> comparable_column ''identity_to_human'' (rows example_df)
   \<and> (\<exists>shown.
         page_database example_df (''cluster'' \<in> set (columns example_df)) =
           ([Header ''TP53 Feature Table'',
             Write ''This table shows all TP53 and TP53-like sequences'',
             Dataframe shown,
             Markdown ''Tip for Viva / Thesis''],
            Returned ())
         \<and> columns shown = [''id'', ''length'', ''identity_to_human'']
         \<and> mset (rows shown) = mset (rows example_df)
         \<and> descending_by ''identity_to_human'' (rows shown))"
proof -
  have a: "''identity_to_human'' \<notin> set (columns no_identity_df)"
    by (simp add: no_identity_df_def)
  have b: "''identity_to_human'' \<in> set (columns example_df)"
    by (simp add: example_df_def)
  have c: "comparable_column ''identity_to_human'' (rows example_df)"
    by (simp add: example_df_def comparable_column_def is_num_def elephant_row_def human_row_def)
  have d: "[c \<leftarrow> [''id'', ''length'', ''identity_to_human'']. c \<in> set (columns example_df)]
             @ [c \<leftarrow> [''cluster'']. c \<in> set (columns example_df)]
           = [''id'', ''length'', ''identity_to_human'']"
    by (simp add: example_df_def)
  show ?thesis
    using a b c database_page_table [of no_identity_df] database_page_table [of example_df]
    unfolding d by blast
qed

subsection \<open>The Overview page\<close>

lemma image_paths_differ:
  "tree_path \<noteq> logo_path" "tree_path \<noteq> barplot_path" "logo_path \<noteq> barplot_path"
  by (simp_all add: tree_path_def logo_path_def barplot_path_def)

text \<open>
  Claim C7. The Overview page treats each of the three images on its own: where the file
  is absent it renders the warning of that image in the place of the image, and goes on
  with the elements that follow. In every state of the file system the page renders all
  nine elements and returns; no absent image raises an exception or stops the run.
\<close>

theorem overview_images:
  "page_overview fs =
     ([Header ''Overview of Analysis'',
       Subheader ''Phylogenetic Tree'',
       (if os_path_exists fs tree_path then Image tree_path else Warning tree_path),
       Subheader ''MSA Conservation Logo'',
       (if os_path_exists fs logo_path then Image logo_path else Warning logo_path),
       Markdown ''---'',
       Subheader ''Identity to Human TP53'',
       (if os_path_exists fs barplot_path then Image barplot_path else Warning barplot_path),
       Markdown ''On this page you can see''],
      Returned ())
   \<and> (\<forall>p \<in> set image_paths.
        \<not> os_path_exists fs p \<longrightarrow>
          Warning p \<in> set (fst (page_overview fs)) \<and> Image p \<notin> set (fst (page_overview fs)))
   \<and> render \<lparr>files = fs, nav = Overview, pick_of = i\<rparr> (Some df, f) =
       (Sidebar_success f # fst (page_overview fs), Returned ())"
proof -
  have eq: "page_overview fs =
     ([Header ''Overview of Analysis'',
       Subheader ''Phylogenetic Tree'',
       (if os_path_exists fs tree_path then Image tree_path else Warning tree_path),
       Subheader ''MSA Conservation Logo'',
       (if os_path_exists fs logo_path then Image logo_path else Warning logo_path),
       Markdown ''---'',
       Subheader ''Identity to Human TP53'',
       (if os_path_exists fs barplot_path then Image barplot_path else Warning barplot_path),
       Markdown ''On this page you can see''],
      Returned ())"
    by (simp add: page_overview_def image_or_warning_def io_bind_def emit_def)
  have warn: "\<forall>p \<in> set image_paths.
        \<not> os_path_exists fs p \<longrightarrow>
          Warning p \<in> set (fst (page_overview fs)) \<and> Image p \<notin> set (fst (page_overview fs))"
    unfolding eq using image_paths_differ by (auto simp: image_paths_def)
  have "render \<lparr>files = fs, nav = Overview, pick_of = i\<rparr> (Some df, f) =
       (Sidebar_success f # fst (page_overview fs), Returned ())"
    by (simp add: eq render_def io_bind_def emit_def)
  with eq warn show ?thesis by blast
qed

theorem overview_images_witness:
  "os_path_exists tree_only tree_path
   \<and> \<not> os_path_exists tree_only logo_path
   \<and> \<not> os_path_exists tree_only barplot_path
   \<and> fst (page_overview tree_only) =
       [Header ''Overview of Analysis'',
        Subheader ''Phylogenetic Tree'',
        Image tree_path,
        Subheader ''MSA Conservation Logo'',
        Warning logo_path,
        Markdown ''---'',
        Subheader ''Identity to Human TP53'',
        Warning barplot_path,
        Markdown ''On this page you can see'']
   \<and> snd (page_overview tree_only) = Returned ()
   \<and> Warning logo_path \<in> set (fst (page_overview tree_only))
   \<and> Warning barplot_path \<in> set (fst (page_overview tree_only))"
proof -
  have ex: "os_path_exists tree_only tree_path" "\<not> os_path_exists tree_only logo_path"
    "\<not> os_path_exists tree_only barplot_path"
    using image_paths_differ by (simp_all add: os_path_exists_def tree_only_def)
  show ?thesis
    using ex overview_images [of tree_only] by (simp add: image_paths_def)
qed

subsection \<open>A candidate that exists\<close>

lemma fst_io_bind:
  "fst (io_bind m f) = fst m @ (case snd m of Returned a \<Rightarrow> fst (f a) | _ \<Rightarrow> [])"
  by (cases m; cases "snd m") (simp_all add: io_bind_def split: prod.splits)

lemma snd_io_bind:
  "snd (io_bind m f) =
     (case snd m of Returned a \<Rightarrow> snd (f a) | Stopped \<Rightarrow> Stopped | Raised err \<Rightarrow> Raised err)"
  by (cases m; cases "snd m") (simp_all add: io_bind_def split: prod.splits)

text \<open>
  Claim C5, as amended. Where at least one candidate exists, \<open>load_features\<close> hands the
  first one that exists to \<^verbatim>\<open>pd.read_csv\<close>. When pandas parses it, \<open>load_features\<close>
  returns the parsed table, with or without rows, together with the name it used, and
  the first run reports that name in the sidebar before it renders a page. When
  \<^verbatim>\<open>pd.read_csv\<close> raises, \<open>load_features\<close> raises the same exception and the run ends with
  it after the title and the introduction: no name is reported.
\<close>

theorem load_features_present:
  assumes "os_path_exists fs clustered_csv \<or> os_path_exists fs plain_csv"
    and "fname = (if os_path_exists fs clustered_csv then clustered_csv else plain_csv)"
  shows "(\<forall>df. pd_read_csv fs fname = Inr df \<longrightarrow>
            load_features fs = Inr (Some df, Some fname)
            \<and> (\<exists>page_elements.
                  fst (fst (app None \<lparr>files = fs, nav = p, pick_of = i\<rparr>)) =
                    Title # Intro # Sidebar_success (Some fname) # page_elements))
    \<and> (\<forall>err. pd_read_csv fs fname = Inl err \<longrightarrow>
            load_features fs = Inl err
            \<and> fst (app None \<lparr>files = fs, nav = p, pick_of = i\<rparr>) =
                ([Title, Intro], Raised err))"
proof (intro conjI allI impI)
  fix df
  assume "pd_read_csv fs fname = Inr df"
  then show ld: "load_features fs = Inr (Some df, Some fname)"
    using assms by (auto simp: load_features_def candidates_def)
  then show "\<exists>page_elements.
      fst (fst (app None \<lparr>files = fs, nav = p, pick_of = i\<rparr>)) =
        Title # Intro # Sidebar_success (Some fname) # page_elements"
    by (simp add: app_def st_cache_data_def render_def Let_def fst_io_bind snd_io_bind
        lift_def emit_def)
next
  fix err
  assume "pd_read_csv fs fname = Inl err"
  then show ld: "load_features fs = Inl err"
    using assms by (auto simp: load_features_def candidates_def)
  then show "fst (app None \<lparr>files = fs, nav = p, pick_of = i\<rparr>) = ([Title, Intro], Raised err)"
    by (simp add: app_def st_cache_data_def io_bind_def lift_def emit_def)
qed

theorem load_features_present_witness:
  "(os_path_exists plain_only clustered_csv \<or> os_path_exists plain_only plain_csv)
   \<and> pd_read_csv plain_only plain_csv = Inr example_df
   \<and> load_features plain_only = Inr (Some example_df, Some plain_csv)
   \<and> (\<exists>page_elements.
          fst (fst (app None \<lparr>files = plain_only, nav = About, pick_of = 0\<rparr>)) =
            Title # Intro # Sidebar_success (Some plain_csv) # page_elements)
   \<and> (os_path_exists empty_file clustered_csv \<or> os_path_exists empty_file plain_csv)
   \<and> pd_read_csv empty_file plain_csv = Inl (OtherError ''EmptyDataError'')
   \<and> load_features empty_file = Inl (OtherError ''EmptyDataError'')
   \<and> fst (app None \<lparr>files = empty_file, nav = About, pick_of = 0\<rparr>) =
       ([Title, Intro], Raised (OtherError ''EmptyDataError''))"
proof -
  have a: "os_path_exists plain_only clustered_csv \<or> os_path_exists plain_only plain_csv"
    by (simp add: os_path_exists_def plain_only_def plain_csv_def tree_path_def)
  have b: "plain_csv =
      (if os_path_exists plain_only clustered_csv then clustered_csv else plain_csv)"
    using candidates_differ
    by (simp add: os_path_exists_def plain_only_def clustered_csv_def plain_csv_def tree_path_def)
  have c: "pd_read_csv plain_only plain_csv = Inr example_df"
    by (simp add: pd_read_csv_def plain_only_def plain_csv_def tree_path_def)
  have a': "os_path_exists empty_file clustered_csv \<or> os_path_exists empty_file plain_csv"
    by (simp add: os_path_exists_def empty_file_def)
  have b': "plain_csv =
      (if os_path_exists empty_file clustered_csv then clustered_csv else plain_csv)"
    using candidates_differ by (simp add: os_path_exists_def empty_file_def)
  have c': "pd_read_csv empty_file plain_csv = Inl (OtherError ''EmptyDataError'')"
    by (simp add: pd_read_csv_def empty_file_def)
  show ?thesis
    using a c a' c' load_features_present [OF a b, of About 0]
      load_features_present [OF a' b', of About 0]
    by simp
qed

text \<open>
  The claim as stated asks for a table that is not empty. A file with only the header line
  gives a table without rows, and a file without any content makes \<^verbatim>\<open>pd.read_csv\<close> raise,
  so that \<open>load_features\<close> returns nothing.
\<close>

theorem load_features_nonempty_counterexample:
  "os_path_exists header_only_files clustered_csv
   \<and> load_features header_only_files = Inr (Some header_only_df, Some clustered_csv)
   \<and> rows header_only_df = []
   \<and> os_path_exists empty_file plain_csv
   \<and> load_features empty_file = Inl (OtherError ''EmptyDataError'')"
  by (simp add: os_path_exists_def load_features_def candidates_def pd_read_csv_def
      header_only_files_def header_only_df_def empty_file_def candidates_differ)

subsection \<open>Selecting a row on the Explore page\<close>

lemma mask_filter:
  "map fst [p \<leftarrow> zip xs (map (\<lambda>x. P (g x)) xs). snd p] = [x \<leftarrow> xs. P (g x)]"
  by (induction xs) simp_all

lemma getitem_mask_Some:
  "df_getitem_mask df (series_eq (map (\<lambda>r. r c) (rows df)) (Some s)) =
     df\<lparr>rows := [r \<leftarrow> rows df. py_eq (r c) s]\<rparr>"
proof -
  have "map fst [p \<leftarrow> zip (rows df) (map (\<lambda>r. py_eq (r c) s) (rows df)). snd p]
      = [r \<leftarrow> rows df. py_eq (r c) s]"
    using mask_filter [of "rows df" "\<lambda>v. py_eq v s" "\<lambda>r. r c"] by simp
  then show ?thesis
    by (simp add: df_getitem_mask_def series_eq_def comp_def)
qed

lemma getitem_mask_None:
  "df_getitem_mask df (series_eq (map (\<lambda>r. r c) (rows df)) None) = df\<lparr>rows := []\<rparr>"
proof -
  have "map fst [p \<leftarrow> zip xs (map (\<lambda>x. False) xs). snd p] = []" for xs :: "row list"
    by (induction xs) simp_all
  then show ?thesis
    by (simp add: df_getitem_mask_def series_eq_def comp_def)
qed

lemma selected_row_Some:
  assumes "''id'' \<in> set (columns df)"
  shows "selected_row df (Some s) =
     (case [r \<leftarrow> rows df. py_eq (r ''id'') s] of
        [] \<Rightarrow> Inl IndexError
      | r # _ \<Rightarrow> Inr \<lparr>index = columns df, vals = r\<rparr>)"
  using assms
  by (simp add: selected_row_def and_then_def df_getitem_def getitem_mask_Some iloc0_def
      split: list.splits)

lemma selected_row_None:
  assumes "''id'' \<in> set (columns df)"
  shows "selected_row df None = Inl IndexError"
  using assms
  by (simp add: selected_row_def and_then_def df_getitem_def getitem_mask_None iloc0_def)

lemma selectbox_value_in:
  assumes "options \<noteq> []"
  shows "\<exists>v \<in> set options. selectbox_value options i = Some v"
proof (cases options)
  case Nil
  with assms show ?thesis by simp
next
  case (Cons a list)
  show ?thesis
  proof (cases "i < length options")
    case True
    then have "options ! i \<in> set options" by (rule nth_mem)
    with True Cons show ?thesis by (auto simp: selectbox_value_def)
  next
    case False
    with Cons show ?thesis by (simp add: selectbox_value_def)
  qed
qed

lemma selectbox_value_nth:
  assumes "i < length options"
  shows "selectbox_value options i = Some (options ! i)"
  using assms by (cases options) (auto simp: selectbox_value_def)

lemma filter_distinct_key:
  assumes "distinct (map f xs)" and "i < length xs"
  shows "[x \<leftarrow> xs. f x = f (xs ! i)] = [xs ! i]"
  using assms
proof (induction xs arbitrary: i)
  case Nil
  then show ?case by simp
next
  case (Cons a xs)
  show ?case
  proof (cases i)
    case 0
    have "f a \<notin> f ` set xs"
      using Cons.prems(1) by simp
    then have "\<forall>x \<in> set xs. f x \<noteq> f a"
      by (metis imageI)
    then have "[x \<leftarrow> xs. f x = f a] = []"
      by (simp add: filter_empty_conv)
    with 0 show ?thesis by simp
  next
    case (Suc j)
    then have j: "j < length xs" using Cons.prems(2) by simp
    then have "f (xs ! j) \<in> f ` set xs" by simp
    then have "f a \<noteq> f (xs ! j)" using Cons.prems(1) by auto
    moreover have "[x \<leftarrow> xs. f x = f (xs ! j)] = [xs ! j]"
      using Cons.IH [OF _ j] Cons.prems(1) by simp
    ultimately show ?thesis using Suc by simp
  qed
qed

text \<open>
  Claim C4, as amended. For a table with the column \<^verbatim>\<open>id\<close>: when the table has no row
  the selectbox returns \<^verbatim>\<open>None\<close>, no row matches and \<^verbatim>\<open>iloc[0]\<close> raises \<open>IndexError\<close>.
  When the table has a row and no identifier is missing, the selection does not raise: it
  returns a row of the table that carries the selected identifier.
\<close>

theorem row_selection:
  assumes "''id'' \<in> set (columns df)"
  shows "(rows df = [] \<longrightarrow>
           selected_row df (selectbox_value (map (\<lambda>r. r ''id'') (rows df)) i) = Inl IndexError)
    \<and> (rows df \<noteq> [] \<and> list_all (\<lambda>r. \<not> isna (r ''id'')) (rows df) \<longrightarrow>
         (\<exists>r \<in> set (rows df).
            selectbox_value (map (\<lambda>r. r ''id'') (rows df)) i = Some (r ''id'')
            \<and> selected_row df (selectbox_value (map (\<lambda>r. r ''id'') (rows df)) i) =
                Inr \<lparr>index = columns df, vals = r\<rparr>))"
proof (intro conjI impI)
  assume "rows df = []"
  then show "selected_row df (selectbox_value (map (\<lambda>r. r ''id'') (rows df)) i) = Inl IndexError"
    using assms by (simp add: selectbox_value_def selected_row_None)
next
  let ?ids = "map (\<lambda>r. r ''id'') (rows df)"
  assume h: "rows df \<noteq> [] \<and> list_all (\<lambda>r. \<not> isna (r ''id'')) (rows df)"
  then obtain s where s: "s \<in> set ?ids" "selectbox_value ?ids i = Some s"
    using selectbox_value_in [of ?ids i] by auto
  then obtain r0 where r0: "r0 \<in> set (rows df)" "r0 ''id'' = s" by auto
  then have "py_eq (r0 ''id'') s" using h by (auto simp: py_eq_def list_all_iff)
  with r0 have "[r \<leftarrow> rows df. py_eq (r ''id'') s] \<noteq> []"
    by (auto simp: filter_empty_conv)
  then obtain r rest where f: "[r \<leftarrow> rows df. py_eq (r ''id'') s] = r # rest"
    by (cases "[r \<leftarrow> rows df. py_eq (r ''id'') s]") auto
  then have "r \<in> set [r \<leftarrow> rows df. py_eq (r ''id'') s]" by simp
  then have r: "r \<in> set (rows df)" "r ''id'' = s" by (auto simp: py_eq_def)
  have "selected_row df (Some s) = Inr \<lparr>index = columns df, vals = r\<rparr>"
    using assms f by (simp add: selected_row_Some)
  with r s show "\<exists>r \<in> set (rows df).
            selectbox_value ?ids i = Some (r ''id'')
            \<and> selected_row df (selectbox_value ?ids i) = Inr \<lparr>index = columns df, vals = r\<rparr>"
    by auto
qed


theorem row_selection_witness:
  "''id'' \<in> set (columns header_only_df)
   \<and> rows header_only_df = []
   \<and> selected_row header_only_df
        (selectbox_value (map (\<lambda>r. r ''id'') (rows header_only_df)) 0) = Inl IndexError
   \<and> ''id'' \<in> set (columns example_df)
   \<and> rows example_df \<noteq> []
   \<and> list_all (\<lambda>r. \<not> isna (r ''id'')) (rows example_df)
   \<and> (\<exists>r \<in> set (rows example_df).
         selectbox_value (map (\<lambda>r. r ''id'') (rows example_df)) 1 = Some (r ''id'')
         \<and> selected_row example_df
              (selectbox_value (map (\<lambda>r. r ''id'') (rows example_df)) 1) =
             Inr \<lparr>index = columns example_df, vals = r\<rparr>)"
proof -
  have a: "''id'' \<in> set (columns header_only_df)" "rows header_only_df = []"
    by (simp_all add: header_only_df_def)
  have b: "''id'' \<in> set (columns example_df)" "rows example_df \<noteq> []"
    by (simp_all add: example_df_def)
  have c: "list_all (\<lambda>r. \<not> isna (r ''id'')) (rows example_df)"
    by (simp add: example_df_def elephant_row_def human_row_def isna_def)
  show ?thesis
    using a b c row_selection [OF a(1), of 0] row_selection [OF b(1), of 1] by blast
qed

text \<open>
  The claim as stated fails on the table of a file with only the header line: the Explore
  page raises \<open>IndexError\<close> at line 127.
\<close>

theorem row_selection_empty_counterexample:
  "selectbox_value (map (\<lambda>r. r ''id'') (rows header_only_df)) 0 = None
   \<and> selected_row header_only_df None = Inl IndexError
   \<and> snd (fst (app None \<lparr>files = header_only_files, nav = Explore_a_Sequence, pick_of = 0\<rparr>))
       = Raised IndexError"
proof -
  have ld: "load_features header_only_files = Inr (Some header_only_df, Some clustered_csv)"
    by (simp add: os_path_exists_def load_features_def candidates_def pd_read_csv_def
        header_only_files_def)
  have sel: "selected_row header_only_df None = Inl IndexError"
    by (rule selected_row_None) (simp add: header_only_df_def)
  have id: "df_getitem header_only_df ''id'' = Inr []"
    by (simp add: df_getitem_def header_only_df_def)
  have "snd (page_explore header_only_df False 0) = Raised IndexError"
    by (simp add: page_explore_def id sel selectbox_value_def io_bind_def lift_def emit_def)
  moreover have "''cluster'' \<notin> set (columns header_only_df)"
    by (simp add: header_only_df_def)
  ultimately show ?thesis
    using ld sel
    by (simp add: app_def st_cache_data_def render_def snd_io_bind lift_def emit_def
        selectbox_value_def header_only_df_def)
qed

subsection \<open>The composition table\<close>

lemma series_getitem_list_sub:
  assumes "set cols \<subseteq> set (index s)"
  shows "series_getitem_list s cols = Inr \<lparr>index = cols, vals = vals s\<rparr>"
proof -
  have "[c \<leftarrow> cols. c \<notin> set (index s)] = []"
    using assms by (auto simp: filter_empty_conv)
  then show ?thesis by (simp add: series_getitem_list_def)
qed

lemma zip_map_same: "zip (map f xs) (map g xs) = map (\<lambda>x. (f x, g x)) xs"
  by (induction xs) simp_all

lemma comp_df_ok:
  assumes "index row = columns df"
  shows "comp_df df row =
     Inr \<lparr>columns = [''Amino Acid'', ''Fraction''],
          rows = map (\<lambda>c. (\<lambda>_. NaN)(''index'' := Str c, ''Fraction'' := vals row c,
                               ''Amino Acid'' := Str (str_replace ''frac_'' [] c)))
                   (aa_cols df)\<rparr>"
proof -
  have sub: "series_getitem_list row (aa_cols df) = Inr \<lparr>index = aa_cols df, vals = vals row\<rparr>"
    using assms by (intro series_getitem_list_sub) (auto simp: aa_cols_def)
  show ?thesis
    by (simp add: comp_df_def sub and_then_def to_frame_reset_index_def df_getitem_def
        series_str_replace_def df_setitem_def df_getitem_list_def zip_map_same comp_def)
qed

subsection \<open>The detail view of the Explore page\<close>

lemma round_half_even_close: "\<bar>of_int (round_half_even x) - x\<bar> \<le> 1 / 2"
  unfolding round_half_even_def Let_def by (auto simp: abs_if) linarith+

lemma two_decimals_close: "\<bar>two_decimals x - x\<bar> \<le> 1 / 200"
proof -
  have "\<bar>of_int (round_half_even (x * 100)) - x * 100\<bar> \<le> 1 / 2"
    by (rule round_half_even_close)
  then show ?thesis
    unfolding two_decimals_def by (simp add: abs_if field_simps split: if_splits)
qed

lemma basic_properties_ok:
  assumes "''length'' \<in> set (index row)"
    and "''identity_to_human'' \<in> set (index row) \<longrightarrow> \<not> is_str (vals row ''identity_to_human'')"
    and "has_cluster \<longrightarrow> ''cluster'' \<in> set (index row)"
  shows "basic_properties row has_cluster =
     ([Write ''Basic properties:'', Write_length (vals row ''length'')]
      @ (if ''identity_to_human'' \<in> set (index row)
         then [Write_identity (shown_2f (vals row ''identity_to_human''))] else [])
      @ (if has_cluster then [Write_cluster (vals row ''cluster'')] else []),
      Returned ())"
proof -
  have "format_2f (vals row ''identity_to_human'')
      = Inr (shown_2f (vals row ''identity_to_human''))"
    if "''identity_to_human'' \<in> set (index row)"
    using assms(2) that by (simp add: format_2f_def is_str_def split: cell.splits)
  then show ?thesis
    using assms(1,3)
    by (simp add: basic_properties_def series_getitem_def and_then_def io_bind_def lift_def
        emit_def)
qed

lemma composition_ok:
  assumes "index row = columns df"
  shows "\<exists>t. composition df row =
     ([Write ''Amino acid composition (fraction):'', Dataframe t], Returned ())"
  by (simp add: composition_def comp_df_ok [OF assms] io_bind_def lift_def emit_def)

text \<open>
  Claim C3, as amended. In a table whose identifiers are pairwise different, selecting the
  identifier of row \<open>r\<close> on the Explore page keeps exactly that row: the mask leaves the
  one row \<open>r\<close> and \<^verbatim>\<open>iloc[0]\<close> returns it. The detail view then shows the length stored
  in \<open>r\<close> as it is, and the identity stored in \<open>r\<close> rounded to two decimals: a multiple of
  0.01 at most 0.005 away from the stored value. The page returns. The table has the
  columns \<^verbatim>\<open>id\<close> and \<^verbatim>\<open>length\<close>, the identifier is not a missing value and the identity
  is not a string (which the format rejects). The result is a function of the table and
  the pick.
\<close>

theorem explore_selected_row:
  assumes "''id'' \<in> set (columns df)" and "''length'' \<in> set (columns df)"
    and "distinct (map (\<lambda>r. r ''id'') (rows df))"
    and "i < length (rows df)"
    and "r = rows df ! i"
    and "\<not> isna (r ''id'')"
    and "''identity_to_human'' \<in> set (columns df) \<longrightarrow> \<not> is_str (r ''identity_to_human'')"
  shows "selectbox_value (map (\<lambda>r. r ''id'') (rows df)) i = Some (r ''id'')
    \<and> rows (df_getitem_mask df (series_eq (map (\<lambda>r. r ''id'') (rows df)) (Some (r ''id'')))) = [r]
    \<and> selected_row df (Some (r ''id'')) = Inr \<lparr>index = columns df, vals = r\<rparr>
    \<and> (\<exists>t. page_explore df (''cluster'' \<in> set (columns df)) i =
          ([Header ''Explore a Single TP53 / RTG Sequence'',
            Write ''Choose a sequence ID from the dropdown below'',
            Selectbox (map (\<lambda>r. r ''id'') (rows df)) (Some (r ''id'')),
            Details_for (Some (r ''id'')),
            Write ''Basic properties:'',
            Write_length (r ''length'')]
           @ (if ''identity_to_human'' \<in> set (columns df)
              then [Write_identity (shown_2f (r ''identity_to_human''))] else [])
           @ (if ''cluster'' \<in> set (columns df) then [Write_cluster (r ''cluster'')] else [])
           @ [Write ''Amino acid composition (fraction):'',
              Dataframe t,
              Markdown ''You can explain in your thesis''],
           Returned ()))
    \<and> (\<forall>x. r ''identity_to_human'' = Num x \<longrightarrow>
          shown_2f (r ''identity_to_human'') = Num (two_decimals x)
          \<and> (\<exists>k. two_decimals x = of_int k / 100)
          \<and> \<bar>two_decimals x - x\<bar> \<le> 1 / 200)"
proof -
  let ?ids = "map (\<lambda>r. r ''id'') (rows df)"
  let ?row = "\<lparr>index = columns df, vals = r\<rparr>"
  have shown: "\<forall>x. r ''identity_to_human'' = Num x \<longrightarrow>
          shown_2f (r ''identity_to_human'') = Num (two_decimals x)
          \<and> (\<exists>k. two_decimals x = of_int k / 100)
          \<and> \<bar>two_decimals x - x\<bar> \<le> 1 / 200"
    using two_decimals_close by (auto simp: shown_2f_def two_decimals_def)
  have sel: "selectbox_value ?ids i = Some (r ''id'')"
    using assms(4,5) by (simp add: selectbox_value_nth)
  have "[x \<leftarrow> rows df. py_eq (x ''id'') (r ''id'')] = [x \<leftarrow> rows df. x ''id'' = r ''id'']"
    using assms(6) by (intro filter_cong) (auto simp: py_eq_def)
  also have "\<dots> = [r]"
    using filter_distinct_key [OF assms(3,4)] assms(5) by simp
  finally have one: "[x \<leftarrow> rows df. py_eq (x ''id'') (r ''id'')] = [r]" .
  then have mask: "rows (df_getitem_mask df (series_eq ?ids (Some (r ''id'')))) = [r]"
    by (simp add: getitem_mask_Some)
  have row: "selected_row df (Some (r ''id'')) = Inr ?row"
    using assms(1) one by (simp add: selected_row_Some)
  have basic: "basic_properties ?row (''cluster'' \<in> set (columns df)) =
     ([Write ''Basic properties:'', Write_length (r ''length'')]
      @ (if ''identity_to_human'' \<in> set (columns df)
         then [Write_identity (shown_2f (r ''identity_to_human''))] else [])
      @ (if ''cluster'' \<in> set (columns df) then [Write_cluster (r ''cluster'')] else []),
      Returned ())"
    using basic_properties_ok [of ?row "''cluster'' \<in> set (columns df)"] assms(2,7) by simp
  obtain t where comp: "composition df ?row =
     ([Write ''Amino acid composition (fraction):'', Dataframe t], Returned ())"
    using composition_ok [of ?row df] by auto
  have "page_explore df (''cluster'' \<in> set (columns df)) i =
          ([Header ''Explore a Single TP53 / RTG Sequence'',
            Write ''Choose a sequence ID from the dropdown below'',
            Selectbox ?ids (Some (r ''id'')),
            Details_for (Some (r ''id'')),
            Write ''Basic properties:'',
            Write_length (r ''length'')]
           @ (if ''identity_to_human'' \<in> set (columns df)
              then [Write_identity (shown_2f (r ''identity_to_human''))] else [])
           @ (if ''cluster'' \<in> set (columns df) then [Write_cluster (r ''cluster'')] else [])
           @ [Write ''Amino acid composition (fraction):'',
              Dataframe t,
              Markdown ''You can explain in your thesis''],
           Returned ())"
    using assms(1)
    by (simp add: page_explore_def df_getitem_def sel row basic comp io_bind_def lift_def
        emit_def Let_def)
  with sel mask row shown show ?thesis by blast
qed


theorem explore_selected_row_witness:
  "''id'' \<in> set (columns example_df) \<and> ''length'' \<in> set (columns example_df)
   \<and> distinct (map (\<lambda>r. r ''id'') (rows example_df))
   \<and> 1 < length (rows example_df)
   \<and> human_row = rows example_df ! 1
   \<and> \<not> isna (human_row ''id'')
   \<and> \<not> is_str (human_row ''identity_to_human'')
   \<and> selected_row example_df (Some (Str ''human_TP53'')) =
       Inr \<lparr>index = columns example_df, vals = human_row\<rparr>
   \<and> (\<exists>t. page_explore example_df False 1 =
          ([Header ''Explore a Single TP53 / RTG Sequence'',
            Write ''Choose a sequence ID from the dropdown below'',
            Selectbox [Str ''elephant_RTG1'', Str ''human_TP53''] (Some (Str ''human_TP53'')),
            Details_for (Some (Str ''human_TP53'')),
            Write ''Basic properties:'',
            Write_length (Num 393),
            Write_identity (Num 100),
            Write ''Amino acid composition (fraction):'',
            Dataframe t,
            Markdown ''You can explain in your thesis''],
           Returned ()))"
proof -
  have a: "''id'' \<in> set (columns example_df)" "''length'' \<in> set (columns example_df)"
    by (simp_all add: example_df_def)
  have b: "distinct (map (\<lambda>r. r ''id'') (rows example_df))"
    by (simp add: example_df_def elephant_row_def human_row_def)
  have c: "1 < length (rows example_df)" "human_row = rows example_df ! 1"
    by (simp_all add: example_df_def)
  have d: "\<not> isna (human_row ''id'')" "\<not> is_str (human_row ''identity_to_human'')"
    by (simp_all add: human_row_def isna_def is_str_def)
  have e: "''identity_to_human'' \<in> set (columns example_df)
      \<longrightarrow> \<not> is_str (human_row ''identity_to_human'')"
    using d by simp
  have v: "human_row ''id'' = Str ''human_TP53''" "human_row ''length'' = Num 393"
    "human_row ''identity_to_human'' = Num 100"
    "map (\<lambda>r. r ''id'') (rows example_df) = [Str ''elephant_RTG1'', Str ''human_TP53'']"
    "''identity_to_human'' \<in> set (columns example_df)"
    "''cluster'' \<notin> set (columns example_df)"
    by (simp_all add: human_row_def elephant_row_def example_df_def)
  have w: "shown_2f (Num 100) = Num 100"
    by (simp add: shown_2f_def two_decimals_def round_half_even_def Let_def)
  show ?thesis
    using a b c d explore_selected_row [OF a b c d(1) e]
    by (simp add: v w)
qed

text \<open>
  The claim as stated has the displayed identity equal to the stored one. The stored value
  85.4375 is displayed as 85.44.
\<close>

theorem explore_identity_rounded_counterexample:
  "rows rounding_df = [rounding_row]
   \<and> rounding_row ''identity_to_human'' = Num 85.4375
   \<and> (\<exists>t. page_explore rounding_df (''cluster'' \<in> set (columns rounding_df)) 0 =
          ([Header ''Explore a Single TP53 / RTG Sequence'',
            Write ''Choose a sequence ID from the dropdown below'',
            Selectbox [Str ''elephant_RTG2''] (Some (Str ''elephant_RTG2'')),
            Details_for (Some (Str ''elephant_RTG2'')),
            Write ''Basic properties:'',
            Write_length (Num 390),
            Write_identity (Num 85.44),
            Write ''Amino acid composition (fraction):'',
            Dataframe t,
            Markdown ''You can explain in your thesis''],
           Returned ()))
   \<and> Num 85.44 \<noteq> Num 85.4375"
proof -
  let ?row = "\<lparr>index = columns rounding_df, vals = rounding_row\<rparr>"
  have v: "rounding_row ''id'' = Str ''elephant_RTG2''" "rounding_row ''length'' = Num 390"
    "rounding_row ''identity_to_human'' = Num 85.4375"
    by (simp_all add: rounding_row_def)
  have cols: "''id'' \<in> set (columns rounding_df)" "''length'' \<in> set (columns rounding_df)"
    "''identity_to_human'' \<in> set (columns rounding_df)"
    "''cluster'' \<notin> set (columns rounding_df)" "rows rounding_df = [rounding_row]"
    by (simp_all add: rounding_df_def)
  have w: "shown_2f (Num 85.4375) = Num 85.44"
    by (simp add: shown_2f_def two_decimals_def round_half_even_def Let_def)
  have row: "selected_row rounding_df (Some (Str ''elephant_RTG2'')) = Inr ?row"
    using cols(1) by (simp add: selected_row_Some cols(5) v py_eq_def isna_def)
  have basic: "basic_properties ?row False =
     ([Write ''Basic properties:'', Write_length (Num 390), Write_identity (Num 85.44)],
      Returned ())"
    using basic_properties_ok [of ?row False] cols w by (simp add: v is_str_def)
  obtain t where comp: "composition rounding_df ?row =
     ([Write ''Amino acid composition (fraction):'', Dataframe t], Returned ())"
    using composition_ok [of ?row rounding_df] by auto
  have "page_explore rounding_df (''cluster'' \<in> set (columns rounding_df)) 0 =
          ([Header ''Explore a Single TP53 / RTG Sequence'',
            Write ''Choose a sequence ID from the dropdown below'',
            Selectbox [Str ''elephant_RTG2''] (Some (Str ''elephant_RTG2'')),
            Details_for (Some (Str ''elephant_RTG2'')),
            Write ''Basic properties:'',
            Write_length (Num 390),
            Write_identity (Num 85.44),
            Write ''Amino acid composition (fraction):'',
            Dataframe t,
            Markdown ''You can explain in your thesis''],
           Returned ())"
    using cols(1)
    by (simp add: page_explore_def df_getitem_def cols(4,5) v selectbox_value_def row basic
        comp io_bind_def lift_def emit_def Let_def)
  then show ?thesis
    using cols(5) v(3) by auto
qed

subsection \<open>The entries of the composition table\<close>

lemma replace_from_skip: "replace_from old new k s = replace_from old new 0 (drop k s)"
proof (induction k arbitrary: s)
  case 0
  then show ?case by simp
next
  case (Suc k)
  then show ?case by (cases s) simp_all
qed

lemma replace_from_absent:
  assumes "old \<noteq> []" and "\<not> occurs old s"
  shows "replace_from old new 0 s = s"
  using assms by (induction s) simp_all

lemma str_replace_prefix:
  assumes "old \<noteq> []" and "\<not> occurs old rest"
  shows "str_replace old [] (old @ rest) = rest"
proof -
  obtain c cs where old: "old = c # cs" using assms(1) by (cases old) auto
  have "replace_from old [] 0 (old @ rest) = replace_from old [] (length cs) (cs @ rest)"
    by (simp add: old)
  also have "\<dots> = replace_from old [] 0 rest"
    by (subst replace_from_skip) simp
  also have "\<dots> = rest"
    using assms by (rule replace_from_absent)
  finally show ?thesis using assms(1) by (simp add: str_replace_def)
qed

lemma startswith_split:
  assumes "startswith c p"
  shows "c = p @ drop (length p) c"
  using assms append_take_drop_id [of "length p" c] by (simp add: startswith_def)

lemma frac_label:
  assumes "startswith c ''frac_''" and "\<not> occurs ''frac_'' (drop (length ''frac_'') c)"
  shows "str_replace ''frac_'' [] c = drop (length ''frac_'') c"
proof -
  have "str_replace ''frac_'' [] (''frac_'' @ drop (length ''frac_'') c)
      = drop (length ''frac_'') c"
    using assms(2) by (intro str_replace_prefix) simp_all
  then show ?thesis
    using startswith_split [OF assms(1)] by simp
qed

text \<open>
  Claim C10, as amended. For a row of the loaded table, the composition table of the
  Explore page has the columns \<^verbatim>\<open>Amino Acid\<close> and \<^verbatim>\<open>Fraction\<close> and exactly one entry, in
  the order of the columns, per column of the loaded table whose name starts with
  \<^verbatim>\<open>frac_\<close>. The entry's value is the row's value in that column. Its label is the column
  name with every occurrence of \<^verbatim>\<open>frac_\<close> removed; that is the name without its prefix
  whenever \<^verbatim>\<open>frac_\<close> does not occur again after the prefix. Without such columns the
  table has no entry and is rendered without an exception.
\<close>

theorem composition_table:
  assumes "index row = columns df"
  shows "\<exists>t. composition df row =
           ([Write ''Amino acid composition (fraction):'', Dataframe t], Returned ())
    \<and> columns t = [''Amino Acid'', ''Fraction'']
    \<and> aa_cols df = [c \<leftarrow> columns df. startswith c ''frac_'']
    \<and> map (\<lambda>r. r ''Amino Acid'') (rows t) = map (\<lambda>c. Str (str_replace ''frac_'' [] c)) (aa_cols df)
    \<and> map (\<lambda>r. r ''Fraction'') (rows t) = map (vals row) (aa_cols df)
    \<and> (aa_cols df = [] \<longrightarrow> rows t = [])
    \<and> (list_all (\<lambda>c. \<not> occurs ''frac_'' (drop (length ''frac_'') c)) (aa_cols df) \<longrightarrow>
         map (\<lambda>r. r ''Amino Acid'') (rows t) = map (\<lambda>c. Str (drop (length ''frac_'') c)) (aa_cols df))"
proof -
  let ?t = "\<lparr>columns = [''Amino Acid'', ''Fraction''],
          rows = map (\<lambda>c. (\<lambda>_. NaN)(''index'' := Str c, ''Fraction'' := vals row c,
                               ''Amino Acid'' := Str (str_replace ''frac_'' [] c)))
                   (aa_cols df)\<rparr>"
  have page: "composition df row =
           ([Write ''Amino acid composition (fraction):'', Dataframe ?t], Returned ())"
    by (simp add: composition_def comp_df_ok [OF assms] io_bind_def lift_def emit_def)
  have cols: "aa_cols df = [c \<leftarrow> columns df. startswith c ''frac_'']"
    by (simp add: aa_cols_def)
  have labels: "map (\<lambda>r. r ''Amino Acid'') (rows ?t) =
      map (\<lambda>c. Str (str_replace ''frac_'' [] c)) (aa_cols df)"
    by (simp add: comp_def)
  have fracs: "map (\<lambda>r. r ''Fraction'') (rows ?t) = map (vals row) (aa_cols df)"
    by (simp add: comp_def)
  have plain: "map (\<lambda>r. r ''Amino Acid'') (rows ?t) = map (\<lambda>c. Str (drop (length ''frac_'') c)) (aa_cols df)"
    if "list_all (\<lambda>c. \<not> occurs ''frac_'' (drop (length ''frac_'') c)) (aa_cols df)"
  proof -
    have "str_replace ''frac_'' [] c = drop (length ''frac_'') c" if "c \<in> set (aa_cols df)" for c
      using that \<open>list_all _ _\<close> by (intro frac_label) (auto simp: aa_cols_def list_all_iff)
    then show ?thesis unfolding labels by simp
  qed
  show ?thesis
    using page cols labels fracs plain by (intro exI [of _ ?t]) simp
qed


theorem composition_table_witness:
  "index \<lparr>index = columns example_df, vals = human_row\<rparr> = columns example_df
   \<and> list_all (\<lambda>c. \<not> occurs ''frac_'' (drop (length ''frac_'') c)) (aa_cols example_df)
   \<and> aa_cols no_identity_df = []
   \<and> (\<exists>t. composition example_df \<lparr>index = columns example_df, vals = human_row\<rparr> =
           ([Write ''Amino acid composition (fraction):'', Dataframe t], Returned ())
        \<and> columns t = [''Amino Acid'', ''Fraction'']
        \<and> map (\<lambda>r. r ''Amino Acid'') (rows t) = [Str ''A'']
        \<and> map (\<lambda>r. r ''Fraction'') (rows t) = [Num 0.5])
   \<and> (\<exists>t. composition no_identity_df \<lparr>index = columns no_identity_df, vals = human_row\<rparr> =
           ([Write ''Amino acid composition (fraction):'', Dataframe t], Returned ())
        \<and> columns t = [''Amino Acid'', ''Fraction'']
        \<and> rows t = [])"
proof -
  let ?r1 = "\<lparr>index = columns example_df, vals = human_row\<rparr>"
  let ?r2 = "\<lparr>index = columns no_identity_df, vals = human_row\<rparr>"
  have cols: "aa_cols example_df = [''frac_A'']" "aa_cols no_identity_df = []"
    by (simp_all add: aa_cols_def example_df_def no_identity_df_def startswith_def)
  have no: "\<not> occurs ''frac_'' ''A''"
    by simp
  have a: "list_all (\<lambda>c. \<not> occurs ''frac_'' (drop (length ''frac_'') c)) (aa_cols example_df)"
    using no by (simp add: cols)
  have v: "vals ?r1 ''frac_A'' = Num 0.5"
    by (simp add: human_row_def)
  have lab: "str_replace ''frac_'' [] ''frac_A'' = ''A''"
    by code_simp
  have i1: "index ?r1 = columns example_df" and i2: "index ?r2 = columns no_identity_df"
    by simp_all
  from composition_table [OF i1] obtain t1 where t1:
    "composition example_df ?r1 =
       ([Write ''Amino acid composition (fraction):'', Dataframe t1], Returned ())"
    "columns t1 = [''Amino Acid'', ''Fraction'']"
    "map (\<lambda>r. r ''Amino Acid'') (rows t1) =
       map (\<lambda>c. Str (str_replace ''frac_'' [] c)) (aa_cols example_df)"
    "map (\<lambda>r. r ''Fraction'') (rows t1) = map (vals ?r1) (aa_cols example_df)"
    by blast
  from composition_table [OF i2] obtain t2 where t2:
    "composition no_identity_df ?r2 =
       ([Write ''Amino acid composition (fraction):'', Dataframe t2], Returned ())"
    "columns t2 = [''Amino Acid'', ''Fraction'']"
    "aa_cols no_identity_df = [] \<longrightarrow> rows t2 = []"
    by blast
  have l1: "map (\<lambda>r. r ''Amino Acid'') (rows t1) = [Str ''A'']"
    using t1(3) by (simp only: cols lab list.map)
  have f1: "map (\<lambda>r. r ''Fraction'') (rows t1) = [Num 0.5]"
    using t1(4) by (simp only: cols v list.map)
  have e2: "rows t2 = []"
    using t2(3) cols(2) by blast
  have first: "\<exists>t. composition example_df ?r1 =
           ([Write ''Amino acid composition (fraction):'', Dataframe t], Returned ())
        \<and> columns t = [''Amino Acid'', ''Fraction'']
        \<and> map (\<lambda>r. r ''Amino Acid'') (rows t) = [Str ''A'']
        \<and> map (\<lambda>r. r ''Fraction'') (rows t) = [Num 0.5]"
    by (rule exI [of _ t1]) (simp only: t1(1,2) l1 f1 simp_thms)
  have second: "\<exists>t. composition no_identity_df ?r2 =
           ([Write ''Amino acid composition (fraction):'', Dataframe t], Returned ())
        \<and> columns t = [''Amino Acid'', ''Fraction'']
        \<and> rows t = []"
    by (rule exI [of _ t2]) (simp only: t2(1,2) e2 simp_thms)
  show ?thesis
    by (intro conjI) (rule i1 a cols(2) first second)+
qed

text \<open>
  The claim as stated labels every entry by the name without its prefix. The script calls
  \<^verbatim>\<open>str.replace\<close>, which removes every occurrence: the column \<^verbatim>\<open>frac_frac_A\<close> gets the
  label \<^verbatim>\<open>A\<close>, where removing the prefix gives \<^verbatim>\<open>frac_A\<close>.
\<close>

theorem composition_label_counterexample:
  "aa_cols twice_df = [''frac_frac_A'']
   \<and> drop (length ''frac_'') ''frac_frac_A'' = ''frac_A''
   \<and> comp_df twice_df \<lparr>index = columns twice_df, vals = twice_row\<rparr> =
       Inr \<lparr>columns = [''Amino Acid'', ''Fraction''],
            rows = [(\<lambda>_. NaN)(''index'' := Str ''frac_frac_A'', ''Fraction'' := Num 0.5,
                      ''Amino Acid'' := Str ''A'')]\<rparr>"
proof -
  have cols: "aa_cols twice_df = [''frac_frac_A'']"
    by (simp add: aa_cols_def twice_df_def startswith_def)
  have lab: "str_replace ''frac_'' [] ''frac_frac_A'' = ''A''"
    by code_simp
  have v: "twice_row ''frac_frac_A'' = Num 0.5"
    by (simp add: twice_row_def)
  have "comp_df twice_df \<lparr>index = columns twice_df, vals = twice_row\<rparr> =
       Inr \<lparr>columns = [''Amino Acid'', ''Fraction''],
            rows = [(\<lambda>_. NaN)(''index'' := Str ''frac_frac_A'', ''Fraction'' := Num 0.5,
                      ''Amino Acid'' := Str ''A'')]\<rparr>"
    using comp_df_ok [of "\<lparr>index = columns twice_df, vals = twice_row\<rparr>" twice_df]
    by (simp add: cols lab v)
  with cols show ?thesis by simp
qed

subsection \<open>A table without the cluster column\<close>

lemma sort_values_desc_cases:
  "sort_values_desc by df = Inl (KeyError by) \<or> sort_values_desc by df = Inl TypeError
   \<or> (\<exists>t. sort_values_desc by df = Inr t \<and> columns t = columns df)"
  by (simp add: sort_values_desc_def Let_def)

lemma selected_row_cases:
  "selected_row df sel = Inl (KeyError ''id'') \<or> selected_row df sel = Inl IndexError
   \<or> (\<exists>r. selected_row df sel = Inr \<lparr>index = columns df, vals = r\<rparr>)"
  by (simp add: selected_row_def and_then_def df_getitem_def iloc0_def df_getitem_mask_def
      split: list.splits)

lemma basic_properties_no_cluster:
  "Write_cluster v \<notin> set (fst (basic_properties row False))"
  "snd (basic_properties row False) \<noteq> Raised (KeyError ''cluster'')"
  by (simp_all add: basic_properties_def series_getitem_def and_then_def format_2f_def
      io_bind_def lift_def emit_def split: cell.splits)

lemma page_database_no_cluster:
  assumes "''cluster'' \<notin> set (columns df)"
  shows "Write_cluster v \<notin> set (fst (page_database df (''cluster'' \<in> set (columns df))))"
    and "Dataframe t \<in> set (fst (page_database df (''cluster'' \<in> set (columns df))))
           \<Longrightarrow> ''cluster'' \<notin> set (columns t)"
    and "snd (page_database df (''cluster'' \<in> set (columns df))) \<noteq> Raised (KeyError ''cluster'')"
proof -
  let ?sub = "\<lparr>columns = cols_to_show df (''cluster'' \<in> set (columns df)), rows = rows df\<rparr>"
  have cols: "''cluster'' \<notin> set (columns ?sub)"
    using assms by (simp add: cols_to_show_def main_cols_def Let_def)
  have page: "page_database df (''cluster'' \<in> set (columns df)) =
      block [emit (Header ''TP53 Feature Table''),
             emit (Write ''This table shows all TP53 and TP53-like sequences''),
             io_bind (lift (sort_values_desc ''identity_to_human'' ?sub))
               (\<lambda>shown. emit (Dataframe shown)),
             emit (Markdown ''Tip for Viva / Thesis'')]"
    by (simp add: page_database_def cols_to_show_present and_then_def)
  consider (key) "sort_values_desc ''identity_to_human'' ?sub = Inl (KeyError ''identity_to_human'')"
    | (type) "sort_values_desc ''identity_to_human'' ?sub = Inl TypeError"
    | (ok) s where "sort_values_desc ''identity_to_human'' ?sub = Inr s" "columns s = columns ?sub"
    using sort_values_desc_cases [of "''identity_to_human''" ?sub] by blast
  then have "Write_cluster v \<notin> set (fst (page_database df (''cluster'' \<in> set (columns df))))
    \<and> (Dataframe t \<in> set (fst (page_database df (''cluster'' \<in> set (columns df))))
           \<longrightarrow> ''cluster'' \<notin> set (columns t))
    \<and> snd (page_database df (''cluster'' \<in> set (columns df))) \<noteq> Raised (KeyError ''cluster'')"
  proof cases
    case key
    then show ?thesis by (simp add: page io_bind_def lift_def emit_def)
  next
    case type
    then show ?thesis by (simp add: page io_bind_def lift_def emit_def)
  next
    case ok
    then show ?thesis using cols by (auto simp: page io_bind_def lift_def emit_def)
  qed
  then show "Write_cluster v \<notin> set (fst (page_database df (''cluster'' \<in> set (columns df))))"
    and "Dataframe t \<in> set (fst (page_database df (''cluster'' \<in> set (columns df))))
           \<Longrightarrow> ''cluster'' \<notin> set (columns t)"
    and "snd (page_database df (''cluster'' \<in> set (columns df))) \<noteq> Raised (KeyError ''cluster'')"
    by blast+
qed

lemma page_explore_no_cluster:
  "Write_cluster v \<notin> set (fst (page_explore df False i))"
  "snd (page_explore df False i) \<noteq> Raised (KeyError ''cluster'')"
proof -
  have "Write_cluster v \<notin> set (fst (page_explore df False i))
    \<and> snd (page_explore df False i) \<noteq> Raised (KeyError ''cluster'')"
  proof (cases "''id'' \<in> set (columns df)")
    case False
    then show ?thesis
      by (simp add: page_explore_def df_getitem_def io_bind_def lift_def emit_def)
  next
    case True
    let ?sel = "selectbox_value (map (\<lambda>r. r ''id'') (rows df)) i"
    consider (key) "selected_row df ?sel = Inl (KeyError ''id'')"
      | (ix) "selected_row df ?sel = Inl IndexError"
      | (ok) r where "selected_row df ?sel = Inr \<lparr>index = columns df, vals = r\<rparr>"
      using selected_row_cases [of df ?sel] by blast
    then show ?thesis
    proof cases
      case key
      then show ?thesis using True
        by (simp add: page_explore_def df_getitem_def io_bind_def lift_def emit_def Let_def)
    next
      case ix
      then show ?thesis using True
        by (simp add: page_explore_def df_getitem_def io_bind_def lift_def emit_def Let_def)
    next
      case ok
      let ?row = "\<lparr>index = columns df, vals = r\<rparr>"
      obtain t where comp: "composition df ?row =
          ([Write ''Amino acid composition (fraction):'', Dataframe t], Returned ())"
        using composition_ok [of ?row df] by auto
      have page: "page_explore df False i =
         io_bind
          ([Header ''Explore a Single TP53 / RTG Sequence'',
            Write ''Choose a sequence ID from the dropdown below'',
            Selectbox (map (\<lambda>r. r ''id'') (rows df)) ?sel,
            Details_for ?sel], Returned ())
          (\<lambda>_. io_bind (basic_properties ?row False)
             (\<lambda>_. ([Write ''Amino acid composition (fraction):'', Dataframe t,
                     Markdown ''You can explain in your thesis''], Returned ())))"
        using True ok
        by (simp add: page_explore_def df_getitem_def comp io_bind_def lift_def emit_def Let_def
            split: prod.splits outcome.splits)
      show ?thesis
        using basic_properties_no_cluster(1) [of v ?row] basic_properties_no_cluster(2) [of ?row]
        by (auto simp: page fst_io_bind snd_io_bind split: outcome.splits)
    qed
  qed
  then show "Write_cluster v \<notin> set (fst (page_explore df False i))"
    "snd (page_explore df False i) \<noteq> Raised (KeyError ''cluster'')"
    by blast+
qed


lemma render_loaded:
  "fst (render e (Some df, f)) =
     Sidebar_success f #
     fst (case nav e of
            Overview \<Rightarrow> page_overview (files e)
          | TP53_Database \<Rightarrow> page_database df (''cluster'' \<in> set (columns df))
          | Explore_a_Sequence \<Rightarrow> page_explore df (''cluster'' \<in> set (columns df)) (pick_of e)
          | About \<Rightarrow> page_about)"
  "snd (render e (Some df, f)) =
     snd (case nav e of
            Overview \<Rightarrow> page_overview (files e)
          | TP53_Database \<Rightarrow> page_database df (''cluster'' \<in> set (columns df))
          | Explore_a_Sequence \<Rightarrow> page_explore df (''cluster'' \<in> set (columns df)) (pick_of e)
          | About \<Rightarrow> page_about)"
  by (simp_all add: render_def Let_def fst_io_bind snd_io_bind emit_def split: outcome.splits)

lemma page_about_result:
  "page_about =
     ([Header ''About This App'',
       Markdown ''Project: AI-Driven Comparative Analysis of TP53 Paralogs'',
       Markdown ''---'',
       Markdown ''Built with Python and Streamlit''], Returned ())"
  by (simp add: page_about_def io_bind_def emit_def)

lemma page_overview_no_cluster:
  "Write_cluster v \<notin> set (fst (page_overview fs))"
  "snd (page_overview fs) = Returned ()"
  by (simp_all add: page_overview_def image_or_warning_def io_bind_def emit_def)

text \<open>
  Claim C6. For a loaded table without the column \<^verbatim>\<open>cluster\<close> the script leaves out
  what it would show of the cluster: the column list of the Database page and the table it
  displays do not have \<^verbatim>\<open>cluster\<close>, no page renders a cluster line, and whatever a page
  raises, it is not the \<open>KeyError\<close> of the absent column.
\<close>

theorem no_cluster_column:
  assumes "''cluster'' \<notin> set (columns df)"
  shows "''cluster'' \<notin> set (cols_to_show df (''cluster'' \<in> set (columns df)))
    \<and> (\<forall>t. Dataframe t
              \<in> set (fst (render \<lparr>files = fs, nav = TP53_Database, pick_of = i\<rparr> (Some df, f)))
           \<longrightarrow> ''cluster'' \<notin> set (columns t))
    \<and> (\<forall>v. Write_cluster v
              \<notin> set (fst (render \<lparr>files = fs, nav = p, pick_of = i\<rparr> (Some df, f))))
    \<and> snd (render \<lparr>files = fs, nav = p, pick_of = i\<rparr> (Some df, f))
        \<noteq> Raised (KeyError ''cluster'')"
proof -
  have hc: "(''cluster'' \<in> set (columns df)) = False"
    using assms by simp
  have cols: "''cluster'' \<notin> set (cols_to_show df (''cluster'' \<in> set (columns df)))"
    using assms by (simp add: cols_to_show_def main_cols_def Let_def)
  have shown: "''cluster'' \<notin> set (columns t)"
    if "Dataframe t
          \<in> set (fst (render \<lparr>files = fs, nav = TP53_Database, pick_of = i\<rparr> (Some df, f)))"
    for t
    using that page_database_no_cluster(2) [OF assms, of t]
    by (simp add: render_loaded)
  have line: "Write_cluster v
      \<notin> set (fst (render \<lparr>files = fs, nav = p, pick_of = i\<rparr> (Some df, f)))" for v
  proof (cases p)
    case Overview
    then show ?thesis
      using page_overview_no_cluster(1) [of v fs] by (simp add: render_loaded)
  next
    case TP53_Database
    then show ?thesis
      using page_database_no_cluster(1) [OF assms, of v] by (simp add: render_loaded)
  next
    case Explore_a_Sequence
    then show ?thesis
      using page_explore_no_cluster(1) [of v df i] by (simp add: render_loaded hc)
  next
    case About
    then show ?thesis by (simp add: render_loaded page_about_result)
  qed
  have raised: "snd (render \<lparr>files = fs, nav = p, pick_of = i\<rparr> (Some df, f))
        \<noteq> Raised (KeyError ''cluster'')"
  proof (cases p)
    case Overview
    then show ?thesis
      using page_overview_no_cluster(2) [of fs] by (simp add: render_loaded)
  next
    case TP53_Database
    then show ?thesis
      using page_database_no_cluster(3) [OF assms] by (simp add: render_loaded)
  next
    case Explore_a_Sequence
    then show ?thesis
      using page_explore_no_cluster(2) [of df i] by (simp add: render_loaded hc)
  next
    case About
    then show ?thesis by (simp add: render_loaded page_about_result)
  qed
  show ?thesis
    using cols shown line raised by blast
qed

theorem no_cluster_column_witness:
  "''cluster'' \<notin> set (columns example_df)
   \<and> cols_to_show example_df (''cluster'' \<in> set (columns example_df)) =
       [''id'', ''length'', ''identity_to_human'']
   \<and> \<not> (\<exists>t. Dataframe t
              \<in> set (fst (render \<lparr>files = plain_only, nav = TP53_Database, pick_of = 0\<rparr>
                             (Some example_df, Some plain_csv)))
            \<and> ''cluster'' \<in> set (columns t))
   \<and> \<not> (\<exists>v. Write_cluster v
              \<in> set (fst (render \<lparr>files = plain_only, nav = Explore_a_Sequence, pick_of = 0\<rparr>
                             (Some example_df, Some plain_csv))))
   \<and> snd (render \<lparr>files = plain_only, nav = Explore_a_Sequence, pick_of = 0\<rparr>
            (Some example_df, Some plain_csv)) \<noteq> Raised (KeyError ''cluster'')"
proof -
  have a: "''cluster'' \<notin> set (columns example_df)"
    by (simp add: example_df_def)
  have b: "cols_to_show example_df (''cluster'' \<in> set (columns example_df)) =
       [''id'', ''length'', ''identity_to_human'']"
    by (simp add: cols_to_show_def main_cols_def example_df_def)
  show ?thesis
    using a b
      no_cluster_column [OF a, of plain_only 0 "Some plain_csv" Explore_a_Sequence]
    by blast
qed

subsection \<open>The cached table\<close>




lemma keeps_new_frame: "keeps n (new_frame df)"
  by (simp add: keeps_def new_frame_def)
















lemma new_frame_returns:
  "snd (fst (new_frame df s)) = Returned v \<Longrightarrow> v = next_addr s"
  by (simp add: new_frame_def)



























end
